theory Spec2Isabelle
  imports Main "HOL-Library.Word"
begin

section \<open>Data model\<close>

text \<open>
  The embedding follows the Go sources \<^verbatim>\<open>session.go\<close> (embedded-program session),
  the command-session file (spawned-process session), \<^verbatim>\<open>server.go\<close> (admission control)
  and the handlers file (message protocol, pumps, dispatcher).

  Go's \<^verbatim>\<open>int\<close> values \<^verbatim>\<open>cols\<close> and \<^verbatim>\<open>rows\<close> are only stored and compared with 0, never
  computed with, so they are modelled as \<^typ>\<open>int\<close>. The connection counter is an
  \<^verbatim>\<open>int32\<close> that is incremented and decremented, so it is a \<^typ>\<open>32 word\<close>.

  Objects of external libraries (the pseudo-terminal, the Bubble Tea program) are modelled
  by the list of calls the code has made on them, in order; nothing is assumed about what
  the library does with a call.
\<close>

type_synonym byte = "8 word"

text \<open>Message types: the ASCII characters \<^verbatim>\<open>'0'\<close> to \<^verbatim>\<open>'7'\<close>.\<close>

definition MsgInput :: byte where "MsgInput = 48"
definition MsgOutput :: byte where "MsgOutput = 49"
definition MsgResize :: byte where "MsgResize = 50"
definition MsgPing :: byte where "MsgPing = 51"
definition MsgPong :: byte where "MsgPong = 52"
definition MsgTitle :: byte where "MsgTitle = 53"
definition MsgOptions :: byte where "MsgOptions = 54"
definition MsgClose :: byte where "MsgClose = 55"

record ResizeMessage =
  Cols :: int
  Rows :: int

record Pty =
  Width :: int
  Height :: int

record WindowSize =
  wsWidth :: int
  wsHeight :: int

text \<open>
  \<^verbatim>\<open>json.Unmarshal(payload, &resize)\<close> belongs to the Go standard library. It is a
  parameter of the model: \<open>None\<close> is a non-nil error, \<open>Some r\<close> the decoded struct.
\<close>

type_synonym unmarshal = "byte list \<Rightarrow> ResizeMessage option"

text \<open>
  The logger: level and message of every \<^verbatim>\<open>logger.Warn\<close> and \<^verbatim>\<open>logger.Error\<close> call, in
  order. Calls at debug and info level are not modelled.
\<close>

datatype log_level = Warn | Error

type_synonym log_entry = "log_level \<times> string"

text \<open>
  The pseudo-terminal bridge. \<^verbatim>\<open>platformPty\<close> has two builds: on Unix \<^verbatim>\<open>Resize\<close> calls the
  pty, on Windows (pipe pair) it is a no-op. \<^verbatim>\<open>cmdPlatformPty\<close> resizes the pty in both
  builds.
\<close>

datatype backend = UnixPty | WindowsPipes

datatype pty_call = PtyResize int int | PtyWrite "byte list" | PtyClose | PtyKillWait

record platformPty =
  backend :: backend
  pty_calls :: "pty_call list"

definition platformPty_Resize :: "int \<Rightarrow> int \<Rightarrow> platformPty \<Rightarrow> platformPty" where
  "platformPty_Resize cols rows p =
     (case backend p of
        UnixPty \<Rightarrow> p\<lparr>pty_calls := pty_calls p @ [PtyResize cols rows]\<rparr>
      | WindowsPipes \<Rightarrow> p)"

definition platformPty_Close :: "platformPty \<Rightarrow> platformPty" where
  "platformPty_Close p = p\<lparr>pty_calls := pty_calls p @ [PtyClose]\<rparr>"

definition platformPty_Write :: "byte list \<Rightarrow> platformPty \<Rightarrow> platformPty" where
  "platformPty_Write payload p = p\<lparr>pty_calls := pty_calls p @ [PtyWrite payload]\<rparr>"

definition cmdPlatformPty_Resize :: "int \<Rightarrow> int \<Rightarrow> platformPty \<Rightarrow> platformPty" where
  "cmdPlatformPty_Resize cols rows p = p\<lparr>pty_calls := pty_calls p @ [PtyResize cols rows]\<rparr>"

definition cmdPlatformPty_Close :: "platformPty \<Rightarrow> platformPty" where
  "cmdPlatformPty_Close p = p\<lparr>pty_calls := pty_calls p @ [PtyClose, PtyKillWait]\<rparr>"

text \<open>The Bubble Tea program: the calls made on it.\<close>

datatype program_call = ProgramSend int int | ProgramQuit

type_synonym program = "program_call list"

text \<open>
  A buffered channel is the list of its pending values, oldest first, together with the
  capacity it was made with. \<^verbatim>\<open>select { case ch <- v: default: }\<close> sends when there is
  room and otherwise takes the default branch, which does nothing.
\<close>

definition windowChanges_cap :: nat where
  "windowChanges_cap = 1"

definition try_send :: "nat \<Rightarrow> 'a \<Rightarrow> 'a list \<Rightarrow> 'a list" where
  "try_send cap v ch = (if length ch < cap then ch @ [v] else ch)"

text \<open>A receive that finds the channel empty blocks: \<open>None\<close>.\<close>

fun receive :: "'a list \<Rightarrow> ('a \<times> 'a list) option" where
  "receive [] = None"
| "receive (v # ch) = Some (v, ch)"

record webSession =
  ws_id :: string
  ws_program :: "program option"
  ws_platform :: "platformPty option"
  ws_cols :: int
  ws_rows :: int
  ws_cancelled :: bool
  ws_closed :: bool
  ws_windowChanges :: "WindowSize list"

record cmdSession =
  cs_id :: string
  cs_platform :: "platformPty option"
  cs_cols :: int
  cs_rows :: int
  cs_cancelled :: bool
  cs_closed :: bool
  cs_windowChanges :: "WindowSize list"

record CommandHandler =
  ch_name :: string
  ch_args :: "string list"
  ch_dir :: string

record Config =
  ReadOnly :: bool
  MaxConnections :: int

text \<open>
  The registry \<^verbatim>\<open>sessions\<close> is a \<^verbatim>\<open>sync.Map\<close> from session id to session pointer; the
  model keeps which kind of session the id points to. The server's program handler is a
  function of the embedding application; it is passed to the operations that call it.
\<close>

datatype session_kind = WebKind | CmdKind

record httpServer =
  config :: Config
  cmdHandler :: "CommandHandler option"
  sessions :: "string \<rightharpoonup> session_kind"
  connCount :: "32 word"
  logger :: "log_entry list"

definition logf :: "log_level \<Rightarrow> string \<Rightarrow> httpServer \<Rightarrow> httpServer" where
  "logf lvl msg srv = srv\<lparr>logger := logger srv @ [(lvl, msg)]\<rparr>"

text \<open>\<^verbatim>\<open>DefaultConfig\<close>, \<^verbatim>\<open>newHTTPServer\<close> and \<^verbatim>\<open>newCmdHTTPServer\<close>.\<close>

definition DefaultConfig :: Config where
  "DefaultConfig = \<lparr>ReadOnly = False, MaxConnections = 0\<rparr>"

definition newHTTPServer :: "Config \<Rightarrow> httpServer" where
  "newHTTPServer cfg =
     \<lparr>config = cfg, cmdHandler = None, sessions = Map.empty, connCount = 0, logger = []\<rparr>"

definition newCmdHTTPServer :: "Config \<Rightarrow> CommandHandler \<Rightarrow> httpServer" where
  "newCmdHTTPServer cfg h =
     \<lparr>config = cfg, cmdHandler = Some h, sessions = Map.empty, connCount = 0, logger = []\<rparr>"

section \<open>Sessions\<close>

definition webSession_Pty :: "webSession \<Rightarrow> Pty" where
  "webSession_Pty s = \<lparr>Width = ws_cols s, Height = ws_rows s\<rparr>"

definition cmdSession_Pty :: "cmdSession \<Rightarrow> Pty" where
  "cmdSession_Pty s = \<lparr>Width = cs_cols s, Height = cs_rows s\<rparr>"

text \<open>
  \<^verbatim>\<open>webSession.Resize\<close>: store the size, resize the bridge when there is one, try to send
  on \<^verbatim>\<open>windowChanges\<close>, send a window-size message to the program when there is one.
\<close>

definition webSession_Resize :: "int \<Rightarrow> int \<Rightarrow> webSession \<Rightarrow> webSession" where
  "webSession_Resize cols rows s =
     (let s1 = s\<lparr>ws_cols := cols, ws_rows := rows\<rparr>;
          s2 = (case ws_platform s1 of
                  None \<Rightarrow> s1
                | Some p \<Rightarrow> s1\<lparr>ws_platform := Some (platformPty_Resize cols rows p)\<rparr>);
          s3 = s2\<lparr>ws_windowChanges :=
                    try_send windowChanges_cap \<lparr>wsWidth = cols, wsHeight = rows\<rparr>
                      (ws_windowChanges s2)\<rparr>
      in (case ws_program s3 of
            None \<Rightarrow> s3
          | Some pr \<Rightarrow> s3\<lparr>ws_program := Some (pr @ [ProgramSend cols rows])\<rparr>))"

definition cmdSession_Resize :: "int \<Rightarrow> int \<Rightarrow> cmdSession \<Rightarrow> cmdSession" where
  "cmdSession_Resize cols rows s =
     (let s1 = s\<lparr>cs_cols := cols, cs_rows := rows\<rparr>;
          s2 = (case cs_platform s1 of
                  None \<Rightarrow> s1
                | Some p \<Rightarrow> s1\<lparr>cs_platform := Some (cmdPlatformPty_Resize cols rows p)\<rparr>)
      in s2\<lparr>cs_windowChanges :=
               try_send windowChanges_cap \<lparr>wsWidth = cols, wsHeight = rows\<rparr>
                 (cs_windowChanges s2)\<rparr>)"

text \<open>
  Session creation. The environment decides whether the pty can be created
  (\<open>None\<close> is the error of \<^verbatim>\<open>newPlatformPty\<close>), what the program handler returns for
  the session it is shown (\<open>None\<close> is a nil program), and the clock value \<open>now\<close> the id
  is printed from. The goroutine that runs the program is not part of the function's
  result.
\<close>

datatype create_error = PtyFailed | NilProgram | NoCommandHandler

definition createSession ::
  "httpServer \<Rightarrow> (int \<Rightarrow> int \<Rightarrow> platformPty option) \<Rightarrow> (webSession \<Rightarrow> program option) \<Rightarrow>
   string \<Rightarrow> int \<Rightarrow> int \<Rightarrow> httpServer \<times> (create_error + webSession)" where
  "createSession srv newPlatformPty hdl now initialCols initialRows =
     (let cols = (if initialCols \<le> 0 then 80 else initialCols);
          rows = (if initialRows \<le> 0 then 24 else initialRows)
      in (case newPlatformPty cols rows of
            None \<Rightarrow> (srv, Inl PtyFailed)
          | Some platform \<Rightarrow>
              (let session = \<lparr>ws_id = now, ws_program = None, ws_platform = Some platform,
                              ws_cols = cols, ws_rows = rows, ws_cancelled = False,
                              ws_closed = False, ws_windowChanges = []\<rparr>
               in (case hdl session of
                     None \<Rightarrow> (srv, Inl NilProgram)
                   | Some pr \<Rightarrow>
                       (let session1 = session\<lparr>ws_program := Some pr\<rparr>
                        in (srv\<lparr>sessions := (sessions srv)(ws_id session1 \<mapsto> WebKind)\<rparr>,
                            Inr session1))))))"

definition createCmdSession ::
  "httpServer \<Rightarrow> (CommandHandler \<Rightarrow> int \<Rightarrow> int \<Rightarrow> platformPty option) \<Rightarrow>
   string \<Rightarrow> int \<Rightarrow> int \<Rightarrow> httpServer \<times> (create_error + cmdSession)" where
  "createCmdSession srv newCmdPlatformPty now initialCols initialRows =
     (case cmdHandler srv of
        None \<Rightarrow> (srv, Inl NoCommandHandler)
      | Some h \<Rightarrow>
          (let cols = (if initialCols \<le> 0 then 80 else initialCols);
               rows = (if initialRows \<le> 0 then 24 else initialRows)
           in (case newCmdPlatformPty h cols rows of
                 None \<Rightarrow> (srv, Inl PtyFailed)
               | Some platform \<Rightarrow>
                   (let session = \<lparr>cs_id = now, cs_platform = Some platform,
                                   cs_cols = cols, cs_rows = rows, cs_cancelled = False,
                                   cs_closed = False, cs_windowChanges = []\<rparr>
                    in (srv\<lparr>sessions := (sessions srv)(cs_id session \<mapsto> CmdKind)\<rparr>,
                        Inr session)))))"

text \<open>
  Session destruction. The closed flag is tested and set first; a session already closed
  is returned as it is, with the server untouched.
\<close>

definition closeSession :: "httpServer \<Rightarrow> webSession \<Rightarrow> httpServer \<times> webSession" where
  "closeSession srv session =
     (if ws_closed session then (srv, session)
      else
        (let s1 = session\<lparr>ws_closed := True\<rparr>;
             s2 = (case ws_program s1 of
                     None \<Rightarrow> s1
                   | Some pr \<Rightarrow> s1\<lparr>ws_program := Some (pr @ [ProgramQuit])\<rparr>);
             s3 = s2\<lparr>ws_cancelled := True\<rparr>;
             s4 = (case ws_platform s3 of
                     None \<Rightarrow> s3
                   | Some p \<Rightarrow> s3\<lparr>ws_platform := Some (platformPty_Close p)\<rparr>)
         in (srv\<lparr>sessions := (sessions srv)(ws_id s4 := None)\<rparr>, s4)))"

definition closeCmdSession :: "httpServer \<Rightarrow> cmdSession \<Rightarrow> httpServer \<times> cmdSession" where
  "closeCmdSession srv session =
     (if cs_closed session then (srv, session)
      else
        (let s1 = session\<lparr>cs_closed := True\<rparr>;
             s2 = s1\<lparr>cs_cancelled := True\<rparr>;
             s3 = (case cs_platform s2 of
                     None \<Rightarrow> s2
                   | Some p \<Rightarrow> s2\<lparr>cs_platform := Some (cmdPlatformPty_Close p)\<rparr>)
         in (srv\<lparr>sessions := (sessions srv)(cs_id s3 := None)\<rparr>, s3)))"

text \<open>
  The same two functions statement by statement, for runs in which two callers close the
  same session at once. The first statement, the test and set of the closed flag, runs
  under the session's mutex and is one step; each later statement is one step.
\<close>

datatype close_pc = AtLock | AtQuit | AtCancel | AtPlatformClose | AtDelete | Returned

fun closeSession_step ::
  "close_pc \<times> httpServer \<times> webSession \<Rightarrow> close_pc \<times> httpServer \<times> webSession" where
  "closeSession_step (AtLock, srv, s) =
     (if ws_closed s then (Returned, srv, s) else (AtQuit, srv, s\<lparr>ws_closed := True\<rparr>))"
| "closeSession_step (AtQuit, srv, s) =
     (AtCancel, srv,
      (case ws_program s of
         None \<Rightarrow> s
       | Some pr \<Rightarrow> s\<lparr>ws_program := Some (pr @ [ProgramQuit])\<rparr>))"
| "closeSession_step (AtCancel, srv, s) = (AtPlatformClose, srv, s\<lparr>ws_cancelled := True\<rparr>)"
| "closeSession_step (AtPlatformClose, srv, s) =
     (AtDelete, srv,
      (case ws_platform s of
         None \<Rightarrow> s
       | Some p \<Rightarrow> s\<lparr>ws_platform := Some (platformPty_Close p)\<rparr>))"
| "closeSession_step (AtDelete, srv, s) =
     (Returned, srv\<lparr>sessions := (sessions srv)(ws_id s := None)\<rparr>, s)"
| "closeSession_step (Returned, srv, s) = (Returned, srv, s)"

fun closeCmdSession_step ::
  "close_pc \<times> httpServer \<times> cmdSession \<Rightarrow> close_pc \<times> httpServer \<times> cmdSession" where
  "closeCmdSession_step (AtLock, srv, s) =
     (if cs_closed s then (Returned, srv, s) else (AtCancel, srv, s\<lparr>cs_closed := True\<rparr>))"
| "closeCmdSession_step (AtQuit, srv, s) = (AtCancel, srv, s)"
| "closeCmdSession_step (AtCancel, srv, s) = (AtPlatformClose, srv, s\<lparr>cs_cancelled := True\<rparr>)"
| "closeCmdSession_step (AtPlatformClose, srv, s) =
     (AtDelete, srv,
      (case cs_platform s of
         None \<Rightarrow> s
       | Some p \<Rightarrow> s\<lparr>cs_platform := Some (cmdPlatformPty_Close p)\<rparr>))"
| "closeCmdSession_step (AtDelete, srv, s) =
     (Returned, srv\<lparr>sessions := (sessions srv)(cs_id s := None)\<rparr>, s)"
| "closeCmdSession_step (Returned, srv, s) = (Returned, srv, s)"

text \<open>
  Two callers and a schedule: each entry says which caller takes the next step
  (\<open>True\<close> the first, \<open>False\<close> the second).
\<close>

fun interleave ::
  "(close_pc \<times> 'st \<Rightarrow> close_pc \<times> 'st) \<Rightarrow> bool list \<Rightarrow> close_pc \<times> close_pc \<times> 'st \<Rightarrow>
   close_pc \<times> close_pc \<times> 'st" where
  "interleave step [] c = c"
| "interleave step (b # sched) (p1, p2, st) =
     (if b
      then (case step (p1, st) of (p1', st') \<Rightarrow> interleave step sched (p1', p2, st'))
      else (case step (p2, st) of (p2', st') \<Rightarrow> interleave step sched (p1, p2', st')))"

text \<open>
  The invariant of such runs, for the proofs below: either nobody has passed the lock yet,
  or exactly one caller has and the other is before the lock or has returned, or the
  session was found closed by both; \<open>final\<close> is the state the one teardown ends in.
\<close>

definition close_inv ::
  "(close_pc \<times> 'st \<Rightarrow> close_pc \<times> 'st) \<Rightarrow> ('st \<Rightarrow> bool) \<Rightarrow> 'st \<Rightarrow>
   close_pc \<times> close_pc \<times> 'st \<Rightarrow> bool" where
  "close_inv step closed final c =
     (case c of (p1, p2, st) \<Rightarrow>
        (p1 = AtLock \<and> p2 = AtLock \<and> \<not> closed st \<and>
           (\<exists>n. (step ^^ n) (AtLock, st) = (Returned, final))) \<or>
        (closed st \<and> p1 \<noteq> AtLock \<and> (p2 = AtLock \<or> p2 = Returned) \<and>
           (\<exists>n. (step ^^ n) (p1, st) = (Returned, final))) \<or>
        (closed st \<and> p2 \<noteq> AtLock \<and> (p1 = AtLock \<or> p1 = Returned) \<and>
           (\<exists>n. (step ^^ n) (p2, st) = (Returned, final))) \<or>
        (closed st \<and> (p1 = AtLock \<or> p1 = Returned) \<and> (p2 = AtLock \<or> p2 = Returned) \<and>
           st = final))"

section \<open>The session interface used by the handlers\<close>

text \<open>
  \<^verbatim>\<open>internalSession\<close> is implemented by both session types. Writing to the input writer
  of a session whose platform pointer is nil dereferences nil, which panics.
\<close>

datatype session = Web webSession | Cmd cmdSession

datatype panic = NilPointerDereference

definition session_Resize :: "int \<Rightarrow> int \<Rightarrow> session \<Rightarrow> session" where
  "session_Resize cols rows s =
     (case s of
        Web w \<Rightarrow> Web (webSession_Resize cols rows w)
      | Cmd c \<Rightarrow> Cmd (cmdSession_Resize cols rows c))"

definition session_Pty :: "session \<Rightarrow> Pty" where
  "session_Pty s = (case s of Web w \<Rightarrow> webSession_Pty w | Cmd c \<Rightarrow> cmdSession_Pty c)"

definition session_platform :: "session \<Rightarrow> platformPty option" where
  "session_platform s = (case s of Web w \<Rightarrow> ws_platform w | Cmd c \<Rightarrow> cs_platform c)"

definition session_windowChanges :: "session \<Rightarrow> WindowSize list" where
  "session_windowChanges s =
     (case s of Web w \<Rightarrow> ws_windowChanges w | Cmd c \<Rightarrow> cs_windowChanges c)"

definition session_InputWriter_Write :: "byte list \<Rightarrow> session \<Rightarrow> panic + session" where
  "session_InputWriter_Write payload s =
     (case s of
        Web w \<Rightarrow>
          (case ws_platform w of
             None \<Rightarrow> Inl NilPointerDereference
           | Some p \<Rightarrow> Inr (Web (w\<lparr>ws_platform := Some (platformPty_Write payload p)\<rparr>)))
      | Cmd c \<Rightarrow>
          (case cs_platform c of
             None \<Rightarrow> Inl NilPointerDereference
           | Some p \<Rightarrow> Inr (Cmd (c\<lparr>cs_platform := Some (platformPty_Write payload p)\<rparr>))))"

definition session_close :: "httpServer \<Rightarrow> session \<Rightarrow> httpServer \<times> session" where
  "session_close srv s =
     (case s of
        Web w \<Rightarrow> (case closeSession srv w of (srv', w') \<Rightarrow> (srv', Web w'))
      | Cmd c \<Rightarrow> (case closeCmdSession srv c of (srv', c') \<Rightarrow> (srv', Cmd c')))"

section \<open>Message dispatcher\<close>

definition processInput ::
  "unmarshal \<Rightarrow> httpServer \<Rightarrow> byte list \<Rightarrow> session \<Rightarrow> panic + (httpServer \<times> session)" where
  "processInput um srv data session =
     (case data of
        [] \<Rightarrow> Inr (srv, session)
      | msgType # payload \<Rightarrow>
          if msgType = MsgInput then
            (if \<not> ReadOnly (config srv) then
               (case session_InputWriter_Write payload session of
                  Inl e \<Rightarrow> Inl e
                | Inr session' \<Rightarrow> Inr (srv, session'))
             else Inr (srv, session))
          else if msgType = MsgResize then
            (case um payload of
               None \<Rightarrow> Inr (logf Warn ''invalid resize message'' srv, session)
             | Some resize \<Rightarrow> Inr (srv, session_Resize (Cols resize) (Rows resize) session))
          else Inr (srv, session))"


section \<open>Input pumps\<close>

text \<open>
  \<^verbatim>\<open>handleWebSocketInput\<close>: the environment is the list of messages \<^verbatim>\<open>conn.Read\<close> returns
  before the pump returns; the list ends where a read fails or a done signal is seen at
  the loop head, and the pump returns in both cases.
\<close>

fun handleWebSocketInput ::
  "unmarshal \<Rightarrow> httpServer \<Rightarrow> byte list list \<Rightarrow> session \<Rightarrow> panic + (httpServer \<times> session)" where
  "handleWebSocketInput um srv [] session = Inr (srv, session)"
| "handleWebSocketInput um srv (data # rest) session =
     (case processInput um srv data session of
        Inl e \<Rightarrow> Inl e
      | Inr (srv', session') \<Rightarrow> handleWebSocketInput um srv' rest session')"

text \<open>
  \<^verbatim>\<open>binary.BigEndian.Uint32\<close> of a four-byte buffer, and \<^verbatim>\<open>io.ReadFull\<close> on a stream that
  holds the bytes still to come: it fails when fewer bytes than asked for arrive.
\<close>

definition Uint32 :: "byte list \<Rightarrow> 32 word" where
  "Uint32 b =
     (case b of
        [b0, b1, b2, b3] \<Rightarrow>
          or (or (or (ucast b3) (push_bit 8 (ucast b2))) (push_bit 16 (ucast b1)))
             (push_bit 24 (ucast b0))
      | _ \<Rightarrow> 0)"

text \<open>
  \<^verbatim>\<open>binary.BigEndian.PutUint32\<close>, and the bytes \<^verbatim>\<open>writeFramed\<close> hands to the stream: the
  length of the message as a 32-bit big-endian number, then the message.
\<close>

definition PutUint32 :: "32 word \<Rightarrow> byte list" where
  "PutUint32 v = [ucast (drop_bit 24 v), ucast (drop_bit 16 v), ucast (drop_bit 8 v), ucast v]"

definition writeFramed :: "byte list \<Rightarrow> byte list" where
  "writeFramed msg = PutUint32 (of_nat (length msg)) @ msg"

definition ReadFull :: "nat \<Rightarrow> byte list \<Rightarrow> (byte list \<times> byte list) option" where
  "ReadFull n stream =
     (if n \<le> length stream then Some (take n stream, drop n stream) else None)"

datatype pump_exit = ReadFailed | MessageTooLarge

text \<open>
  \<^verbatim>\<open>handleWebTransportInput\<close>: read the 4-byte length, return when it is above 1 MiB, read
  the message (into a pooled buffer up to 256 bytes, a fresh one above; the bytes are the
  same), dispatch, repeat.
\<close>

function handleWebTransportInput ::
  "unmarshal \<Rightarrow> httpServer \<Rightarrow> byte list \<Rightarrow> session \<Rightarrow>
   panic + (httpServer \<times> session \<times> pump_exit)" where
  "handleWebTransportInput um srv stream session =
     (case ReadFull 4 stream of
        None \<Rightarrow> Inr (srv, session, ReadFailed)
      | Some (lenBuf, stream1) \<Rightarrow>
          if Uint32 lenBuf > 1024 * 1024
          then Inr (logf Warn ''message too large'' srv, session, MessageTooLarge)
          else
            (case ReadFull (unat (Uint32 lenBuf)) stream1 of
               None \<Rightarrow> Inr (srv, session, ReadFailed)
             | Some (msg, stream2) \<Rightarrow>
                 (case processInput um srv msg session of
                    Inl e \<Rightarrow> Inl e
                  | Inr (srv', session') \<Rightarrow> handleWebTransportInput um srv' stream2 session')))"
  by pat_completeness auto
termination
  by (relation "measure (\<lambda>(um, srv, stream, session). length stream)")
     (auto simp: ReadFull_def split: if_splits)

section \<open>Admission control\<close>

text \<open>\<^verbatim>\<open>atomic.AddInt32\<close> wraps around; \<^verbatim>\<open>int(newCount)\<close> reads the result as signed.\<close>

definition incrementConnCount :: "httpServer \<Rightarrow> 32 word \<times> httpServer" where
  "incrementConnCount s = (connCount s + 1, s\<lparr>connCount := connCount s + 1\<rparr>)"

definition decrementConnCount :: "httpServer \<Rightarrow> 32 word \<times> httpServer" where
  "decrementConnCount s = (connCount s - 1, s\<lparr>connCount := connCount s - 1\<rparr>)"

definition checkConnectionLimit :: "httpServer \<Rightarrow> bool \<times> httpServer" where
  "checkConnectionLimit s =
     (if MaxConnections (config s) \<le> 0 then (True, s)
      else
        (case incrementConnCount s of
           (newCount, s1) \<Rightarrow>
             if sint newCount > MaxConnections (config s1)
             then (case decrementConnCount s1 of
                     (_, s2) \<Rightarrow> (False, logf Warn ''connection limit reached'' s2))
             else (True, s1)))"

definition releaseConnection :: "httpServer \<Rightarrow> httpServer" where
  "releaseConnection s =
     (if MaxConnections (config s) \<le> 0 then s
      else snd (decrementConnCount s))"

section \<open>The WebSocket handler\<close>

text \<open>
  What the environment does during one connection: whether the upgrade succeeds, what the
  first read returns within its 5 second deadline (\<open>None\<close>: the deadline passed or the
  read failed), the clock at session creation, and the messages the input pump reads.
\<close>

record ws_env =
  accept_ok :: bool
  first_read :: "byte list option"
  now :: string
  inbound :: "byte list list"

record sessionInfo =
  si_id :: string
  si_cols :: int
  si_rows :: int

datatype handler_result =
    Rejected
  | AcceptFailed
  | CreateFailed create_error
  | Served sessionInfo session
  | Crashed panic

text \<open>The initial size: 80 by 24 unless the first message is a resize that parses.\<close>

definition initialSize :: "unmarshal \<Rightarrow> byte list option \<Rightarrow> int \<times> int" where
  "initialSize um rd =
     (case rd of
        None \<Rightarrow> (80, 24)
      | Some [] \<Rightarrow> (80, 24)
      | Some (t # payload) \<Rightarrow>
          if t = MsgResize then
            (case um payload of
               None \<Rightarrow> (80, 24)
             | Some resize \<Rightarrow> (Cols resize, Rows resize))
          else (80, 24))"

text \<open>
  \<^verbatim>\<open>handleWebSocket\<close>. Deferred calls run in reverse order on every return after their
  \<^verbatim>\<open>defer\<close> statement: \<^verbatim>\<open>releaseConnection\<close> is deferred first and so runs last. What
  the handler writes to the connection (the options frame, the frames of the output pump)
  is left out; a panic in a pump ends the process.
\<close>

definition handleWebSocket ::
  "unmarshal \<Rightarrow> (int \<Rightarrow> int \<Rightarrow> platformPty option) \<Rightarrow>
   (CommandHandler \<Rightarrow> int \<Rightarrow> int \<Rightarrow> platformPty option) \<Rightarrow>
   (webSession \<Rightarrow> program option) \<Rightarrow>
   httpServer \<Rightarrow> ws_env \<Rightarrow> httpServer \<times> handler_result" where
  "handleWebSocket um newPlatformPty newCmdPlatformPty handler s env =
     (case checkConnectionLimit s of
        (False, s1) \<Rightarrow> (s1, Rejected)
      | (True, s1) \<Rightarrow>
          if \<not> accept_ok env
          then (releaseConnection (logf Error ''WebSocket accept failed'' s1), AcceptFailed)
          else
            (case initialSize um (first_read env) of
               (cols, rows) \<Rightarrow>
                 (case
                    (case cmdHandler s1 of
                       Some _ \<Rightarrow>
                         (case createCmdSession s1 newCmdPlatformPty (now env) cols rows of
                            (s2, Inl e) \<Rightarrow>
                              (logf Error ''command session creation failed'' s2, Inl e)
                          | (s2, Inr cmdSess) \<Rightarrow>
                              (s2, Inr (Cmd cmdSess,
                                   \<lparr>si_id = cs_id cmdSess, si_cols = cs_cols cmdSess,
                                    si_rows = cs_rows cmdSess\<rparr>)))
                     | None \<Rightarrow>
                         (case createSession s1 newPlatformPty handler (now env) cols rows of
                            (s2, Inl e) \<Rightarrow> (logf Error ''session creation failed'' s2, Inl e)
                          | (s2, Inr webSess) \<Rightarrow>
                              (s2, Inr (Web webSess,
                                   \<lparr>si_id = ws_id webSess, si_cols = ws_cols webSess,
                                    si_rows = ws_rows webSess\<rparr>))))
                  of
                    (s2, Inl e) \<Rightarrow> (releaseConnection s2, CreateFailed e)
                  | (s2, Inr (session, info)) \<Rightarrow>
                      (case handleWebSocketInput um s2 (inbound env) session of
                         Inl p \<Rightarrow> (s2, Crashed p)
                       | Inr (s3, session') \<Rightarrow>
                           (case session_close s3 session' of
                              (s4, session'') \<Rightarrow>
                                (releaseConnection s4, Served info session''))))))"


section \<open>The specification's reading of a message sequence\<close>

text \<open>
  Written from the specification's words, to be compared with what the dispatcher
  computes: a message parses as a resize when its type byte is the resize type and its
  payload decodes; \<open>last_parsed_resize\<close> is the last such message of a sequence.
\<close>

definition parsed_resize :: "unmarshal \<Rightarrow> byte list \<Rightarrow> ResizeMessage option" where
  "parsed_resize um m =
     (case m of
        [] \<Rightarrow> None
      | t # payload \<Rightarrow> if t = MsgResize then um payload else None)"

definition last_parsed_resize :: "unmarshal \<Rightarrow> byte list list \<Rightarrow> ResizeMessage option" where
  "last_parsed_resize um msgs =
     (case List.map_filter (parsed_resize um) msgs of
        [] \<Rightarrow> None
      | r # rs \<Rightarrow> Some (last (r # rs)))"

section \<open>Properties of sessions and of the dispatcher\<close>

lemma createSession_size:
  "createSession srv npty hdl t c r = (srv', Inr s) \<Longrightarrow>
   ws_cols s = (if c \<le> 0 then 80 else c) \<and> ws_rows s = (if r \<le> 0 then 24 else r)"
  unfolding createSession_def Let_def
  by (auto split: option.splits)

lemma createCmdSession_size:
  "createCmdSession srv npty t c r = (srv', Inr s) \<Longrightarrow>
   cs_cols s = (if c \<le> 0 then 80 else c) \<and> cs_rows s = (if r \<le> 0 then 24 else r)"
  unfolding createCmdSession_def Let_def
  by (auto split: option.splits)

lemma webSession_Resize_Pty:
  "webSession_Pty (webSession_Resize c r s) = \<lparr>Width = c, Height = r\<rparr>"
  unfolding webSession_Resize_def webSession_Pty_def Let_def
  by (simp split: option.splits)

lemma cmdSession_Resize_Pty:
  "cmdSession_Pty (cmdSession_Resize c r s) = \<lparr>Width = c, Height = r\<rparr>"
  unfolding cmdSession_Resize_def cmdSession_Pty_def Let_def
  by (simp split: option.splits)

lemma session_Resize_Pty:
  "session_Pty (session_Resize c r s) = \<lparr>Width = c, Height = r\<rparr>"
  by (cases s)
     (simp_all add: session_Pty_def session_Resize_def webSession_Resize_Pty
        cmdSession_Resize_Pty)

lemma session_Resize_platform:
  "(session_platform (session_Resize c r s) = None) = (session_platform s = None)"
  by (cases s)
     (simp_all add: session_platform_def session_Resize_def webSession_Resize_def
        cmdSession_Resize_def Let_def split: option.splits)

lemma last_parsed_resize_Nil: "last_parsed_resize um [] = None"
  by (simp add: last_parsed_resize_def map_filter_simps)

lemma last_parsed_resize_Cons:
  "last_parsed_resize um (m # ms) =
     (case last_parsed_resize um ms of Some r \<Rightarrow> Some r | None \<Rightarrow> parsed_resize um m)"
  by (cases "parsed_resize um m"; cases "List.map_filter (parsed_resize um) ms")
     (simp_all add: last_parsed_resize_def map_filter_simps)

lemma session_Write_ok:
  "session_platform s = Some p \<Longrightarrow>
   \<exists>s'. session_InputWriter_Write payload s = Inr s' \<and>
     session_platform s' = Some (p\<lparr>pty_calls := pty_calls p @ [PtyWrite payload]\<rparr>) \<and>
     session_Pty s' = session_Pty s \<and> session_windowChanges s' = session_windowChanges s"
  by (cases s)
     (auto simp: session_InputWriter_Write_def session_platform_def platformPty_Write_def
        session_Pty_def webSession_Pty_def cmdSession_Pty_def session_windowChanges_def)

lemma session_Resize_platform_Some:
  "session_platform s = Some p \<Longrightarrow> \<exists>p'. session_platform (session_Resize c r s) = Some p'"
  using session_Resize_platform [of c r s] by auto

lemma processInput_step:
  assumes "session_platform s \<noteq> None"
  shows "\<exists>srv' s'. processInput um srv m s = Inr (srv', s') \<and> session_platform s' \<noteq> None \<and>
     session_Pty s' =
       (case parsed_resize um m of
          None \<Rightarrow> session_Pty s
        | Some r \<Rightarrow> \<lparr>Width = Cols r, Height = Rows r\<rparr>)"
proof (cases m)
  case Nil
  then show ?thesis using assms by (simp add: processInput_def parsed_resize_def)
next
  case (Cons t payload)
  from assms obtain p where p: "session_platform s = Some p" by auto
  from session_Write_ok [OF p, of payload] obtain s1 where
    s1: "session_InputWriter_Write payload s = Inr s1" "session_platform s1 \<noteq> None"
        "session_Pty s1 = session_Pty s" by auto
  show ?thesis
    using Cons assms s1
    by (auto simp: processInput_def parsed_resize_def MsgInput_def MsgResize_def
        session_Resize_Pty session_Resize_platform_Some split: option.splits)
qed

lemma handleWebSocketInput_Pty:
  "session_platform s \<noteq> None \<Longrightarrow>
   \<exists>srv' s'. handleWebSocketInput um srv msgs s = Inr (srv', s') \<and>
     session_platform s' \<noteq> None \<and>
     session_Pty s' =
       (case last_parsed_resize um msgs of
          None \<Rightarrow> session_Pty s
        | Some r \<Rightarrow> \<lparr>Width = Cols r, Height = Rows r\<rparr>)"
proof (induction msgs arbitrary: srv s)
  case Nil
  then show ?case by (simp add: last_parsed_resize_Nil)
next
  case (Cons m ms)
  from processInput_step [OF Cons.prems, of um srv m] obtain srv1 s1 where
    st: "processInput um srv m s = Inr (srv1, s1)" "session_platform s1 \<noteq> None"
      "session_Pty s1 =
         (case parsed_resize um m of
            None \<Rightarrow> session_Pty s
          | Some r \<Rightarrow> \<lparr>Width = Cols r, Height = Rows r\<rparr>)"
    by blast
  from Cons.IH [OF st(2), of srv1] obtain srv' s' where
    ih: "handleWebSocketInput um srv1 ms s1 = Inr (srv', s')" "session_platform s' \<noteq> None"
      "session_Pty s' =
         (case last_parsed_resize um ms of
            None \<Rightarrow> session_Pty s1
          | Some r \<Rightarrow> \<lparr>Width = Cols r, Height = Rows r\<rparr>)"
    by blast
  show ?case
    using st ih by (simp add: last_parsed_resize_Cons split: option.splits)
qed

text \<open>
  C2. An input message dispatched on a read-only server leaves server and session as they
  were: no call reaches the bridge. With read-only off, and a session that has its bridge,
  the dispatcher makes exactly one write call on the bridge, with the payload as it came,
  and changes neither the stored size nor the resize channel.
\<close>

theorem readonly_discards_input:
  "(ReadOnly (config srv) \<longrightarrow> processInput um srv (MsgInput # payload) s = Inr (srv, s)) \<and>
   (\<not> ReadOnly (config srv) \<and> session_platform s = Some p \<longrightarrow>
      (\<exists>s'. processInput um srv (MsgInput # payload) s = Inr (srv, s') \<and>
         session_platform s' = Some (p\<lparr>pty_calls := pty_calls p @ [PtyWrite payload]\<rparr>) \<and>
         session_Pty s' = session_Pty s \<and>
         session_windowChanges s' = session_windowChanges s))"
proof (intro conjI impI)
  assume "ReadOnly (config srv)"
  then show "processInput um srv (MsgInput # payload) s = Inr (srv, s)"
    by (simp add: processInput_def)
next
  assume a: "\<not> ReadOnly (config srv) \<and> session_platform s = Some p"
  then have p: "session_platform s = Some p" by simp
  from session_Write_ok [OF p, of payload] a
  show "\<exists>s'. processInput um srv (MsgInput # payload) s = Inr (srv, s') \<and>
         session_platform s' = Some (p\<lparr>pty_calls := pty_calls p @ [PtyWrite payload]\<rparr>) \<and>
         session_Pty s' = session_Pty s \<and>
         session_windowChanges s' = session_windowChanges s"
    by (auto simp: processInput_def)
qed

theorem readonly_discards_input_witness:
  "processInput (\<lambda>_. None) (newHTTPServer \<lparr>ReadOnly = True, MaxConnections = 0\<rparr>)
     [MsgInput, 97, 98]
     (Cmd \<lparr>cs_id = ''1'', cs_platform = Some \<lparr>backend = UnixPty, pty_calls = []\<rparr>,
           cs_cols = 80, cs_rows = 24, cs_cancelled = False, cs_closed = False,
           cs_windowChanges = []\<rparr>)
   = Inr (newHTTPServer \<lparr>ReadOnly = True, MaxConnections = 0\<rparr>,
       Cmd \<lparr>cs_id = ''1'', cs_platform = Some \<lparr>backend = UnixPty, pty_calls = []\<rparr>,
           cs_cols = 80, cs_rows = 24, cs_cancelled = False, cs_closed = False,
           cs_windowChanges = []\<rparr>) \<and>
   (\<exists>s'. processInput (\<lambda>_. None) (newHTTPServer DefaultConfig) [MsgInput, 97, 98]
       (Cmd \<lparr>cs_id = ''1'', cs_platform = Some \<lparr>backend = UnixPty, pty_calls = []\<rparr>,
           cs_cols = 80, cs_rows = 24, cs_cancelled = False, cs_closed = False,
           cs_windowChanges = []\<rparr>)
       = Inr (newHTTPServer DefaultConfig, s') \<and>
     session_platform s' = Some \<lparr>backend = UnixPty, pty_calls = [PtyWrite [97, 98]]\<rparr>)"
proof -
  let ?S = "Cmd \<lparr>cs_id = ''1'', cs_platform = Some \<lparr>backend = UnixPty, pty_calls = []\<rparr>,
           cs_cols = 80, cs_rows = 24, cs_cancelled = False, cs_closed = False,
           cs_windowChanges = []\<rparr>"
  let ?P = "\<lparr>backend = UnixPty, pty_calls = []\<rparr>"
  have ro: "ReadOnly (config (newHTTPServer \<lparr>ReadOnly = True, MaxConnections = 0\<rparr>))"
    by (simp add: newHTTPServer_def)
  have rw: "\<not> ReadOnly (config (newHTTPServer DefaultConfig)) \<and> session_platform ?S = Some ?P"
    by (simp add: newHTTPServer_def DefaultConfig_def session_platform_def)
  from readonly_discards_input
         [of "newHTTPServer \<lparr>ReadOnly = True, MaxConnections = 0\<rparr>" "\<lambda>_. None" "[97, 98]" ?S ?P]
       readonly_discards_input [of "newHTTPServer DefaultConfig" "\<lambda>_. None" "[97, 98]" ?S ?P]
       ro rw
  show ?thesis by auto
qed

text \<open>
  C7. A resize message whose payload does not decode adds one warning to the log and
  changes nothing else: the session (stored size, bridge, resize channel, program) is
  returned as it was and the dispatcher returns normally, so the input pump goes on with
  the messages that follow, from the same session.
\<close>

theorem unparsable_resize_changes_nothing:
  "um payload = None \<Longrightarrow>
   processInput um srv (MsgResize # payload) s =
     Inr (srv\<lparr>logger := logger srv @ [(Warn, ''invalid resize message'')]\<rparr>, s) \<and>
   handleWebSocketInput um srv ((MsgResize # payload) # rest) s =
     handleWebSocketInput um
       (srv\<lparr>logger := logger srv @ [(Warn, ''invalid resize message'')]\<rparr>) rest s"
  by (simp add: processInput_def MsgResize_def MsgInput_def logf_def)

theorem unparsable_resize_changes_nothing_witness:
  "(\<lambda>_. None) [123 :: byte] = (None :: ResizeMessage option) \<and>
   processInput (\<lambda>_. None) (newHTTPServer DefaultConfig) [MsgResize, 123]
     (Cmd \<lparr>cs_id = ''1'', cs_platform = Some \<lparr>backend = UnixPty, pty_calls = []\<rparr>,
           cs_cols = 80, cs_rows = 24, cs_cancelled = False, cs_closed = False,
           cs_windowChanges = []\<rparr>)
   = Inr ((newHTTPServer DefaultConfig)\<lparr>logger := [(Warn, ''invalid resize message'')]\<rparr>,
       Cmd \<lparr>cs_id = ''1'', cs_platform = Some \<lparr>backend = UnixPty, pty_calls = []\<rparr>,
           cs_cols = 80, cs_rows = 24, cs_cancelled = False, cs_closed = False,
           cs_windowChanges = []\<rparr>)"
  using unparsable_resize_changes_nothing
          [of "\<lambda>_. None" "[123]" "newHTTPServer DefaultConfig"
              "Cmd \<lparr>cs_id = ''1'', cs_platform = Some \<lparr>backend = UnixPty, pty_calls = []\<rparr>,
                cs_cols = 80, cs_rows = 24, cs_cancelled = False, cs_closed = False,
                cs_windowChanges = []\<rparr>" "[]"]
  by (simp add: newHTTPServer_def)

text \<open>
  C4. After the dispatcher has handled any sequence of messages for a session that has its
  bridge, the size \<^verbatim>\<open>Pty()\<close> reports is that of the last message of the sequence that
  parsed as a resize; when none did, the size is what it was before. The pump returns
  normally on every such sequence.
\<close>

theorem reported_size_is_last_parsed_resize:
  "session_platform s \<noteq> None \<Longrightarrow>
   \<exists>srv' s'. handleWebSocketInput um srv msgs s = Inr (srv', s') \<and>
     session_Pty s' =
       (case last_parsed_resize um msgs of
          None \<Rightarrow> session_Pty s
        | Some r \<Rightarrow> \<lparr>Width = Cols r, Height = Rows r\<rparr>)"
  using handleWebSocketInput_Pty [of s um srv msgs] by blast

theorem reported_size_is_last_parsed_resize_witness:
  "\<exists>srv' s'.
     handleWebSocketInput (\<lambda>b. if b = [1] then Some \<lparr>Cols = 100, Rows = 40\<rparr> else None)
       (newHTTPServer DefaultConfig)
       [[MsgResize, 7], [MsgResize, 1], [MsgInput, 97], [MsgResize, 2]]
       (Cmd \<lparr>cs_id = ''1'', cs_platform = Some \<lparr>backend = UnixPty, pty_calls = []\<rparr>,
             cs_cols = 80, cs_rows = 24, cs_cancelled = False, cs_closed = False,
             cs_windowChanges = []\<rparr>)
       = Inr (srv', s') \<and>
     session_Pty s' = \<lparr>Width = 100, Height = 40\<rparr>"
proof -
  let ?um = "\<lambda>b::byte list. if b = [1] then Some \<lparr>Cols = 100, Rows = 40\<rparr> else None"
  let ?S = "Cmd \<lparr>cs_id = ''1'', cs_platform = Some \<lparr>backend = UnixPty, pty_calls = []\<rparr>,
             cs_cols = 80, cs_rows = 24, cs_cancelled = False, cs_closed = False,
             cs_windowChanges = []\<rparr>"
  have p: "session_platform ?S \<noteq> None"
    by (simp add: session_platform_def)
  have l: "last_parsed_resize ?um [[MsgResize, 7], [MsgResize, 1], [MsgInput, 97], [MsgResize, 2]]
           = Some \<lparr>Cols = 100, Rows = 40\<rparr>"
    by (simp add: last_parsed_resize_def parsed_resize_def MsgResize_def MsgInput_def)
  from reported_size_is_last_parsed_resize
         [OF p, of ?um "newHTTPServer DefaultConfig"
            "[[MsgResize, 7], [MsgResize, 1], [MsgInput, 97], [MsgResize, 2]]"] l
  show ?thesis by simp
qed

section \<open>The resize channel\<close>

lemma session_Resize_windowChanges:
  "session_windowChanges (session_Resize c r s) =
     try_send windowChanges_cap \<lparr>wsWidth = c, wsHeight = r\<rparr> (session_windowChanges s)"
  by (cases s)
     (simp_all add: session_windowChanges_def session_Resize_def webSession_Resize_def
        cmdSession_Resize_def Let_def split: option.splits)

lemma burst_full:
  "session_windowChanges s = [v] \<Longrightarrow>
   session_windowChanges (fold (\<lambda>(c, r). session_Resize c r) rs s) = [v]"
  by (induction rs arbitrary: s)
     (auto simp: session_Resize_windowChanges try_send_def windowChanges_cap_def)

lemma burst_empty:
  "session_windowChanges s = [] \<Longrightarrow>
   session_windowChanges (fold (\<lambda>(c, r). session_Resize c r) ((c0, r0) # rs) s) =
     [\<lparr>wsWidth = c0, wsHeight = r0\<rparr>]"
  using burst_full [of "session_Resize c0 r0 s" "\<lparr>wsWidth = c0, wsHeight = r0\<rparr>" rs]
  by (simp add: session_Resize_windowChanges try_send_def windowChanges_cap_def)

lemma burst_length:
  "length (session_windowChanges s) \<le> windowChanges_cap \<Longrightarrow>
   length (session_windowChanges (fold (\<lambda>(c, r). session_Resize c r) rs s))
     \<le> windowChanges_cap"
  by (induction rs arbitrary: s)
     (auto simp: session_Resize_windowChanges try_send_def)

text \<open>
  C1, as the code has it. A burst of resizes is \<open>fold\<close> of \<^verbatim>\<open>Resize\<close> over the list of
  sizes. The channel never holds more than one value. A burst applied to a session whose
  channel is empty leaves the first size of the burst in the channel, and that is what a
  receive returns; the later sizes took the default branch of the select and were
  dropped. If a value was already pending, the burst does not change the channel and the
  receive returns that older value.
\<close>

theorem resize_channel_keeps_oldest:
  "(length (session_windowChanges s) \<le> windowChanges_cap \<longrightarrow>
      length (session_windowChanges (fold (\<lambda>(c, r). session_Resize c r) rs s)) \<le> 1) \<and>
   (session_windowChanges s = [] \<longrightarrow>
      receive (session_windowChanges
         (fold (\<lambda>(c, r). session_Resize c r) ((c0, r0) # rs) s)) =
        Some (\<lparr>wsWidth = c0, wsHeight = r0\<rparr>, [])) \<and>
   (session_windowChanges s = [v] \<longrightarrow>
      receive (session_windowChanges (fold (\<lambda>(c, r). session_Resize c r) rs s)) =
        Some (v, []))"
  using burst_length [of s rs] burst_empty [of s c0 r0 rs] burst_full [of s v rs]
  by (simp add: windowChanges_cap_def)

theorem resize_channel_keeps_oldest_witness:
  "length (session_windowChanges
      (fold (\<lambda>(c, r). session_Resize c r) [(120, 50), (132, 43)]
        (Web \<lparr>ws_id = ''1'', ws_program = Some [],
              ws_platform = Some \<lparr>backend = UnixPty, pty_calls = []\<rparr>,
              ws_cols = 80, ws_rows = 24, ws_cancelled = False, ws_closed = False,
              ws_windowChanges = []\<rparr>))) \<le> 1 \<and>
   receive (session_windowChanges
      (fold (\<lambda>(c, r). session_Resize c r) [(100, 40), (120, 50), (132, 43)]
        (Web \<lparr>ws_id = ''1'', ws_program = Some [],
              ws_platform = Some \<lparr>backend = UnixPty, pty_calls = []\<rparr>,
              ws_cols = 80, ws_rows = 24, ws_cancelled = False, ws_closed = False,
              ws_windowChanges = []\<rparr>)))
     = Some (\<lparr>wsWidth = 100, wsHeight = 40\<rparr>, []) \<and>
   receive (session_windowChanges
      (fold (\<lambda>(c, r). session_Resize c r) [(120, 50), (132, 43)]
        (Web \<lparr>ws_id = ''1'', ws_program = Some [],
              ws_platform = Some \<lparr>backend = UnixPty, pty_calls = []\<rparr>,
              ws_cols = 80, ws_rows = 24, ws_cancelled = False, ws_closed = False,
              ws_windowChanges = [\<lparr>wsWidth = 90, wsHeight = 30\<rparr>]\<rparr>)))
     = Some (\<lparr>wsWidth = 90, wsHeight = 30\<rparr>, [])"
proof -
  let ?E = "Web \<lparr>ws_id = ''1'', ws_program = Some [],
              ws_platform = Some \<lparr>backend = UnixPty, pty_calls = []\<rparr>,
              ws_cols = 80, ws_rows = 24, ws_cancelled = False, ws_closed = False,
              ws_windowChanges = []\<rparr>"
  let ?F = "Web \<lparr>ws_id = ''1'', ws_program = Some [],
              ws_platform = Some \<lparr>backend = UnixPty, pty_calls = []\<rparr>,
              ws_cols = 80, ws_rows = 24, ws_cancelled = False, ws_closed = False,
              ws_windowChanges = [\<lparr>wsWidth = 90, wsHeight = 30\<rparr>]\<rparr>"
  have e: "session_windowChanges ?E = []"
    by (simp add: session_windowChanges_def)
  have f: "session_windowChanges ?F = [\<lparr>wsWidth = 90, wsHeight = 30\<rparr>]"
    by (simp add: session_windowChanges_def)
  from resize_channel_keeps_oldest
         [of ?E "[(120, 50), (132, 43)]" 100 40 "\<lparr>wsWidth = 90, wsHeight = 30\<rparr>"]
       resize_channel_keeps_oldest
         [of ?F "[(120, 50), (132, 43)]" 100 40 "\<lparr>wsWidth = 90, wsHeight = 30\<rparr>"]
       e f
  show ?thesis by (simp add: windowChanges_cap_def)
qed

text \<open>
  The specification's sentence that the receive after a burst yields the last resize
  fails on a freshly created session resized to 100 by 40 and then to 120 by 50: the
  receive returns 100 by 40.
\<close>

theorem resize_channel_last_counterexample:
  "receive (session_windowChanges
      (session_Resize 120 50 (session_Resize 100 40
        (Web \<lparr>ws_id = ''1'', ws_program = Some [],
              ws_platform = Some \<lparr>backend = UnixPty, pty_calls = []\<rparr>,
              ws_cols = 80, ws_rows = 24, ws_cancelled = False, ws_closed = False,
              ws_windowChanges = []\<rparr>))))
     = Some (\<lparr>wsWidth = 100, wsHeight = 40\<rparr>, []) \<and>
   receive (session_windowChanges
      (session_Resize 120 50 (session_Resize 100 40
        (Web \<lparr>ws_id = ''1'', ws_program = Some [],
              ws_platform = Some \<lparr>backend = UnixPty, pty_calls = []\<rparr>,
              ws_cols = 80, ws_rows = 24, ws_cancelled = False, ws_closed = False,
              ws_windowChanges = []\<rparr>))))
     \<noteq> Some (\<lparr>wsWidth = 120, wsHeight = 50\<rparr>, [])"
  by (simp add: session_Resize_def webSession_Resize_def platformPty_Resize_def try_send_def
      windowChanges_cap_def session_windowChanges_def Let_def)

section \<open>Properties of admission control\<close>

lemma sint_inc: "sint (c :: 32 word) < 2147483647 \<Longrightarrow> sint (c + 1) = sint c + 1"
proof -
  assume a: "sint c < 2147483647"
  have lo: "- (2 ^ 31) \<le> sint c"
    using sint_ge [of c] by simp
  have "sint (c + 1) = signed_take_bit 31 (sint c + 1)"
    by (simp add: sint_word_add)
  also have "\<dots> = sint c + 1"
    by (rule signed_take_bit_int_eq_self) (use a lo in simp_all)
  finally show ?thesis .
qed

lemma check_rejects:
  assumes "0 < MaxConnections (config s)" "MaxConnections (config s) < 2147483647"
    and "sint (connCount s) = MaxConnections (config s)"
  shows "checkConnectionLimit s =
           (False, s\<lparr>logger := logger s @ [(Warn, ''connection limit reached'')]\<rparr>)"
  using assms
  by (simp add: checkConnectionLimit_def incrementConnCount_def decrementConnCount_def
      sint_inc logf_def)

lemma check_admits:
  assumes "0 < MaxConnections (config s)" "MaxConnections (config s) \<le> 2147483647"
    and "sint (connCount s) < MaxConnections (config s)"
  shows "checkConnectionLimit s = (True, s\<lparr>connCount := connCount s + 1\<rparr>)"
    and "sint (connCount s + 1) = sint (connCount s) + 1"
proof -
  from assms have lt: "sint (connCount s) < 2147483647" by simp
  from sint_inc [OF lt] show "sint (connCount s + 1) = sint (connCount s) + 1" .
  with assms show "checkConnectionLimit s = (True, s\<lparr>connCount := connCount s + 1\<rparr>)"
    by (simp add: checkConnectionLimit_def incrementConnCount_def)
qed

lemma check_bypass:
  "MaxConnections (config s) \<le> 0 \<Longrightarrow> checkConnectionLimit s = (True, s) \<and> releaseConnection s = s"
  by (simp add: checkConnectionLimit_def releaseConnection_def)

lemma release_decrements:
  "0 < MaxConnections (config s) \<Longrightarrow> releaseConnection s = s\<lparr>connCount := connCount s - 1\<rparr>"
  by (simp add: releaseConnection_def decrementConnCount_def)

text \<open>What the parts of the handler leave alone: the configuration and the counter.\<close>

lemma createSession_server:
  "createSession srv npty hdl t c r = (srv', res) \<Longrightarrow>
   config srv' = config srv \<and> connCount srv' = connCount srv"
  unfolding createSession_def Let_def
  by (auto split: option.splits)

lemma createCmdSession_server:
  "createCmdSession srv npty t c r = (srv', res) \<Longrightarrow>
   config srv' = config srv \<and> connCount srv' = connCount srv"
  unfolding createCmdSession_def Let_def
  by (auto split: option.splits)

lemma createSession_platform:
  "createSession srv npty hdl t c r = (srv', Inr w) \<Longrightarrow> session_platform (Web w) \<noteq> None"
  unfolding createSession_def Let_def session_platform_def
  by (auto split: option.splits)

lemma createCmdSession_platform:
  "createCmdSession srv npty t c r = (srv', Inr cs) \<Longrightarrow> session_platform (Cmd cs) \<noteq> None"
  unfolding createCmdSession_def Let_def session_platform_def
  by (auto split: option.splits)

lemma processInput_server:
  "processInput um srv m s = Inr (srv', s') \<Longrightarrow>
   config srv' = config srv \<and> connCount srv' = connCount srv \<and> sessions srv' = sessions srv"
  unfolding processInput_def
  by (auto simp: logf_def split: list.splits if_splits option.splits sum.splits)

lemma handleWebSocketInput_server:
  "handleWebSocketInput um srv msgs s = Inr (srv', s') \<Longrightarrow>
   config srv' = config srv \<and> connCount srv' = connCount srv \<and> sessions srv' = sessions srv"
proof (induction msgs arbitrary: srv s)
  case Nil
  then show ?case by simp
next
  case (Cons m ms)
  then show ?case
    by (auto split: sum.splits dest!: processInput_server)
qed

lemma session_close_server:
  "session_close srv s = (srv', s') \<Longrightarrow>
   config srv' = config srv \<and> connCount srv' = connCount srv"
  unfolding session_close_def closeSession_def closeCmdSession_def Let_def
  by (auto split: session.splits if_splits option.splits)

lemma logf_server:
  "config (logf l m srv) = config srv \<and> connCount (logf l m srv) = connCount srv"
  by (simp add: logf_def)

lemma sint_dec: "- 2147483648 < sint (c :: 32 word) \<Longrightarrow> sint (c - 1) = sint c - 1"
proof -
  assume a: "- 2147483648 < sint c"
  have hi: "sint c < 2 ^ 31"
    using sint_lt [of c] by simp
  have "sint (c - 1) = signed_take_bit 31 (sint c - 1)"
    by (simp add: sint_word_diff)
  also have "\<dots> = sint c - 1"
    by (rule signed_take_bit_int_eq_self) (use a hi in simp_all)
  finally show ?thesis .
qed

lemma serve_tail:
  assumes pl: "session_platform session \<noteq> None"
  shows "\<exists>s3 s4 session' session''.
     handleWebSocketInput um s2 msgs session = Inr (s3, session') \<and>
     session_close s3 session' = (s4, session'') \<and>
     config s4 = config s2 \<and> connCount s4 = connCount s2"
proof -
  from handleWebSocketInput_Pty [OF pl, of um s2 msgs] obtain s3 session' where
    a: "handleWebSocketInput um s2 msgs session = Inr (s3, session')" by blast
  obtain s4 session'' where b: "session_close s3 session' = (s4, session'')"
    by (cases "session_close s3 session'")
  from handleWebSocketInput_server [OF a] session_close_server [OF b] a b
  show ?thesis by simp
qed

lemma handleWebSocket_admitted:
  assumes adm: "checkConnectionLimit s = (True, s1)"
  shows "\<exists>s2 res. handleWebSocket um np ncp h s env = (releaseConnection s2, res) \<and>
     config s2 = config s1 \<and> connCount s2 = connCount s1 \<and>
     res \<noteq> Rejected \<and> (\<forall>p. res \<noteq> Crashed p)"
proof (cases "accept_ok env")
  case False
  with adm have "handleWebSocket um np ncp h s env =
      (releaseConnection (logf Error ''WebSocket accept failed'' s1), AcceptFailed)"
    by (simp add: handleWebSocket_def)
  then show ?thesis
    using logf_server [of Error "''WebSocket accept failed''" s1] by blast
next
  case True
  obtain cols rows where sz: "initialSize um (first_read env) = (cols, rows)"
    by (cases "initialSize um (first_read env)")
  show ?thesis
  proof (cases "cmdHandler s1")
    case (Some ch)
    obtain s2 r where cr: "createCmdSession s1 ncp (now env) cols rows = (s2, r)"
      by (cases "createCmdSession s1 ncp (now env) cols rows")
    show ?thesis
    proof (cases r)
      case (Inl e)
      with adm True sz Some cr have "handleWebSocket um np ncp h s env =
          (releaseConnection (logf Error ''command session creation failed'' s2),
           CreateFailed e)"
        by (simp add: handleWebSocket_def)
      then show ?thesis
        using logf_server [of Error "''command session creation failed''" s2]
          createCmdSession_server [OF cr] by auto
    next
      case (Inr cs)
      from createCmdSession_platform [OF cr [unfolded Inr]]
      have pl: "session_platform (Cmd cs) \<noteq> None" .
      from serve_tail [OF pl, of um s2 "inbound env"] obtain s3 s4 session' session'' where
        t: "handleWebSocketInput um s2 (inbound env) (Cmd cs) = Inr (s3, session')"
           "session_close s3 session' = (s4, session'')"
           "config s4 = config s2" "connCount s4 = connCount s2" by blast
      from adm True sz Some cr Inr t have "handleWebSocket um np ncp h s env =
          (releaseConnection s4,
           Served \<lparr>si_id = cs_id cs, si_cols = cs_cols cs, si_rows = cs_rows cs\<rparr> session'')"
        by (simp add: handleWebSocket_def)
      then show ?thesis
        using t createCmdSession_server [OF cr] by auto
    qed
  next
    case None
    obtain s2 r where cr: "createSession s1 np h (now env) cols rows = (s2, r)"
      by (cases "createSession s1 np h (now env) cols rows")
    show ?thesis
    proof (cases r)
      case (Inl e)
      with adm True sz None cr have "handleWebSocket um np ncp h s env =
          (releaseConnection (logf Error ''session creation failed'' s2), CreateFailed e)"
        by (simp add: handleWebSocket_def)
      then show ?thesis
        using logf_server [of Error "''session creation failed''" s2]
          createSession_server [OF cr] by auto
    next
      case (Inr w)
      from createSession_platform [OF cr [unfolded Inr]]
      have pl: "session_platform (Web w) \<noteq> None" .
      from serve_tail [OF pl, of um s2 "inbound env"] obtain s3 s4 session' session'' where
        t: "handleWebSocketInput um s2 (inbound env) (Web w) = Inr (s3, session')"
           "session_close s3 session' = (s4, session'')"
           "config s4 = config s2" "connCount s4 = connCount s2" by blast
      from adm True sz None cr Inr t have "handleWebSocket um np ncp h s env =
          (releaseConnection s4,
           Served \<lparr>si_id = ws_id w, si_cols = ws_cols w, si_rows = ws_rows w\<rparr> session'')"
        by (simp add: handleWebSocket_def)
      then show ?thesis
        using t createSession_server [OF cr] by auto
    qed
  qed
qed

lemma handleWebSocket_counter:
  assumes "0 < MaxConnections (config s)" "MaxConnections (config s) \<le> 2147483647"
    and "sint (connCount s) < MaxConnections (config s)"
  shows "\<exists>s' res. handleWebSocket um np ncp h s env = (s', res) \<and>
     connCount s' = connCount s \<and> res \<noteq> Rejected \<and> (\<forall>p. res \<noteq> Crashed p)"
proof -
  from check_admits(1) [OF assms]
  have adm: "checkConnectionLimit s = (True, s\<lparr>connCount := connCount s + 1\<rparr>)" .
  from handleWebSocket_admitted [OF adm, of um np ncp h env] obtain s2 res where
    r: "handleWebSocket um np ncp h s env = (releaseConnection s2, res)"
       "config s2 = config (s\<lparr>connCount := connCount s + 1\<rparr>)"
       "connCount s2 = connCount (s\<lparr>connCount := connCount s + 1\<rparr>)"
       "res \<noteq> Rejected" "\<forall>p. res \<noteq> Crashed p"
    by blast
  from r(2) assms(1) have "0 < MaxConnections (config s2)" by simp
  from release_decrements [OF this] r(3)
  have "connCount (releaseConnection s2) = connCount s" by simp
  with r show ?thesis by blast
qed

lemma release_then_check:
  assumes "0 < MaxConnections (config s)" "MaxConnections (config s) < 2147483647"
    and "sint (connCount s) = MaxConnections (config s)"
  shows "checkConnectionLimit (releaseConnection s) = (True, s)"
proof -
  let ?r = "s\<lparr>connCount := connCount s - 1\<rparr>"
  from assms have "- 2147483648 < sint (connCount s)" by simp
  from sint_dec [OF this] assms have lt: "sint (connCount ?r) < MaxConnections (config ?r)"
    by simp
  from assms have "0 < MaxConnections (config ?r)" "MaxConnections (config ?r) \<le> 2147483647"
    by simp_all
  from check_admits(1) [OF this lt] have "checkConnectionLimit ?r = (True, s)"
    by simp
  with release_decrements [OF assms(1)] show ?thesis by simp
qed

text \<open>
  C3, as the code has it. The counter is a 32-bit signed integer, so the limit N must
  leave room for the increment: 0 < N < 2^31 - 1. Then an attempt arriving while the
  counter is N is rejected and the counter is N again after the check, here and in the
  handler; a limit of zero (or below) bypasses the check and the release, neither touches
  the counter; a release lowers the counter by exactly one; an admitted connection leaves
  the counter as it found it whichever way the handler returns (upgrade failure, session
  creation failure, end of the pumps), and the handler never ends in a panic; and after
  one release at the limit the next attempt is admitted, which brings the server back to
  the state in which an attempt is rejected.
\<close>

theorem admission_control:
  "(0 < MaxConnections (config s) \<and> MaxConnections (config s) < 2147483647 \<and>
    sint (connCount s) = MaxConnections (config s) \<longrightarrow>
      checkConnectionLimit s =
        (False, s\<lparr>logger := logger s @ [(Warn, ''connection limit reached'')]\<rparr>) \<and>
      handleWebSocket um np ncp h s env =
        (s\<lparr>logger := logger s @ [(Warn, ''connection limit reached'')]\<rparr>, Rejected) \<and>
      checkConnectionLimit (releaseConnection s) = (True, s)) \<and>
   (MaxConnections (config s) \<le> 0 \<longrightarrow>
      checkConnectionLimit s = (True, s) \<and> releaseConnection s = s) \<and>
   (0 < MaxConnections (config s) \<longrightarrow>
      releaseConnection s = s\<lparr>connCount := connCount s - 1\<rparr>) \<and>
   (0 < MaxConnections (config s) \<and> MaxConnections (config s) < 2147483647 \<and>
    sint (connCount s) < MaxConnections (config s) \<longrightarrow>
      checkConnectionLimit s = (True, s\<lparr>connCount := connCount s + 1\<rparr>) \<and>
      sint (connCount s + 1) = sint (connCount s) + 1 \<and>
      (\<exists>s' res. handleWebSocket um np ncp h s env = (s', res) \<and>
         connCount s' = connCount s \<and> res \<noteq> Rejected \<and> (\<forall>p. res \<noteq> Crashed p)))"
proof (intro conjI impI)
  assume a: "0 < MaxConnections (config s) \<and> MaxConnections (config s) < 2147483647 \<and>
    sint (connCount s) = MaxConnections (config s)"
  then show r: "checkConnectionLimit s =
        (False, s\<lparr>logger := logger s @ [(Warn, ''connection limit reached'')]\<rparr>)"
    using check_rejects [of s] by simp
  then show "handleWebSocket um np ncp h s env =
        (s\<lparr>logger := logger s @ [(Warn, ''connection limit reached'')]\<rparr>, Rejected)"
    by (simp add: handleWebSocket_def)
  from a show "checkConnectionLimit (releaseConnection s) = (True, s)"
    using release_then_check [of s] by simp
next
  assume "MaxConnections (config s) \<le> 0"
  then show "checkConnectionLimit s = (True, s)" "releaseConnection s = s"
    using check_bypass [of s] by simp_all
next
  assume "0 < MaxConnections (config s)"
  then show "releaseConnection s = s\<lparr>connCount := connCount s - 1\<rparr>"
    by (rule release_decrements)
next
  assume a: "0 < MaxConnections (config s) \<and> MaxConnections (config s) < 2147483647 \<and>
    sint (connCount s) < MaxConnections (config s)"
  then show "checkConnectionLimit s = (True, s\<lparr>connCount := connCount s + 1\<rparr>)"
    using check_admits(1) [of s] by simp
  from a show "sint (connCount s + 1) = sint (connCount s) + 1"
    using check_admits(2) [of s] by simp
  from a show "\<exists>s' res. handleWebSocket um np ncp h s env = (s', res) \<and>
         connCount s' = connCount s \<and> res \<noteq> Rejected \<and> (\<forall>p. res \<noteq> Crashed p)"
    using handleWebSocket_counter [of s um np ncp h env] by simp
qed

theorem admission_control_witness:
  "checkConnectionLimit
     ((newHTTPServer \<lparr>ReadOnly = False, MaxConnections = 2\<rparr>)\<lparr>connCount := 2\<rparr>)
     = (False, (newHTTPServer \<lparr>ReadOnly = False, MaxConnections = 2\<rparr>)
                 \<lparr>connCount := 2, logger := [(Warn, ''connection limit reached'')]\<rparr>) \<and>
   checkConnectionLimit
     (releaseConnection
        ((newHTTPServer \<lparr>ReadOnly = False, MaxConnections = 2\<rparr>)\<lparr>connCount := 2\<rparr>))
     = (True, (newHTTPServer \<lparr>ReadOnly = False, MaxConnections = 2\<rparr>)\<lparr>connCount := 2\<rparr>) \<and>
   checkConnectionLimit ((newHTTPServer DefaultConfig)\<lparr>connCount := 7\<rparr>)
     = (True, (newHTTPServer DefaultConfig)\<lparr>connCount := 7\<rparr>) \<and>
   releaseConnection ((newHTTPServer DefaultConfig)\<lparr>connCount := 7\<rparr>)
     = (newHTTPServer DefaultConfig)\<lparr>connCount := 7\<rparr> \<and>
   checkConnectionLimit
     ((newHTTPServer \<lparr>ReadOnly = False, MaxConnections = 2\<rparr>)\<lparr>connCount := 1\<rparr>)
     = (True, (newHTTPServer \<lparr>ReadOnly = False, MaxConnections = 2\<rparr>)\<lparr>connCount := 2\<rparr>) \<and>
   (\<exists>s' res.
      handleWebSocket (\<lambda>_. None) (\<lambda>_ _. None) (\<lambda>_ _ _. None) (\<lambda>_. None)
        ((newHTTPServer \<lparr>ReadOnly = False, MaxConnections = 2\<rparr>)\<lparr>connCount := 1\<rparr>)
        \<lparr>accept_ok = True, first_read = None, now = ''1'', inbound = []\<rparr> = (s', res) \<and>
      connCount s' = 1 \<and> res \<noteq> Rejected)"
proof -
  let ?full = "(newHTTPServer \<lparr>ReadOnly = False, MaxConnections = 2\<rparr>)\<lparr>connCount := 2\<rparr>"
  let ?room = "(newHTTPServer \<lparr>ReadOnly = False, MaxConnections = 2\<rparr>)\<lparr>connCount := 1\<rparr>"
  let ?zero = "(newHTTPServer DefaultConfig)\<lparr>connCount := 7\<rparr>"
  let ?env = "\<lparr>accept_ok = True, first_read = None, now = ''1'', inbound = []\<rparr>"
  have f: "0 < MaxConnections (config ?full) \<and> MaxConnections (config ?full) < 2147483647 \<and>
      sint (connCount ?full) = MaxConnections (config ?full)"
    by (simp add: newHTTPServer_def)
  have z: "MaxConnections (config ?zero) \<le> 0"
    by (simp add: newHTTPServer_def DefaultConfig_def)
  have r: "0 < MaxConnections (config ?room) \<and> MaxConnections (config ?room) < 2147483647 \<and>
      sint (connCount ?room) < MaxConnections (config ?room)"
    by (simp add: newHTTPServer_def)
  from admission_control [of ?full "\<lambda>_. None" "\<lambda>_ _. None" "\<lambda>_ _ _. None" "\<lambda>_. None" ?env] f
  have 1: "checkConnectionLimit ?full =
        (False, ?full\<lparr>logger := logger ?full @ [(Warn, ''connection limit reached'')]\<rparr>)"
    and 2: "checkConnectionLimit (releaseConnection ?full) = (True, ?full)"
    by blast+
  from admission_control [of ?zero "\<lambda>_. None" "\<lambda>_ _. None" "\<lambda>_ _ _. None" "\<lambda>_. None" ?env] z
  have 3: "checkConnectionLimit ?zero = (True, ?zero)" and 4: "releaseConnection ?zero = ?zero"
    by blast+
  from admission_control [of ?room "\<lambda>_. None" "\<lambda>_ _. None" "\<lambda>_ _ _. None" "\<lambda>_. None" ?env] r
  have 5: "checkConnectionLimit ?room = (True, ?room\<lparr>connCount := connCount ?room + 1\<rparr>)"
    and 6: "\<exists>s' res.
      handleWebSocket (\<lambda>_. None) (\<lambda>_ _. None) (\<lambda>_ _ _. None) (\<lambda>_. None) ?room ?env = (s', res) \<and>
      connCount s' = connCount ?room \<and> res \<noteq> Rejected \<and> (\<forall>p. res \<noteq> Crashed p)"
    by blast+
  from 1 2 3 4 5 6 show ?thesis
    by (auto simp add: newHTTPServer_def)
qed

text \<open>
  Stated for every limit above zero, the rejection fails at the largest 32-bit value:
  with the limit and the counter both at 2147483647 the increment wraps to the most
  negative value, which is not above the limit, and the attempt is admitted.
\<close>

theorem admission_limit_counterexample:
  "fst (checkConnectionLimit
      \<lparr>config = \<lparr>ReadOnly = False, MaxConnections = 2147483647\<rparr>, cmdHandler = None,
       sessions = Map.empty, connCount = 2147483647, logger = []\<rparr>) = True \<and>
   sint (connCount (snd (checkConnectionLimit
      \<lparr>config = \<lparr>ReadOnly = False, MaxConnections = 2147483647\<rparr>, cmdHandler = None,
       sessions = Map.empty, connCount = 2147483647, logger = []\<rparr>))) = - 2147483648"
  by (simp add: checkConnectionLimit_def incrementConnCount_def decrementConnCount_def)

section \<open>Initial size negotiation\<close>

lemma handleWebSocket_Served_info:
  assumes "handleWebSocket um np ncp h s env = (s', Served info sess)"
  shows "si_cols info = (if fst (initialSize um (first_read env)) \<le> 0 then 80
                         else fst (initialSize um (first_read env))) \<and>
         si_rows info = (if snd (initialSize um (first_read env)) \<le> 0 then 24
                         else snd (initialSize um (first_read env)))"
proof -
  obtain cols rows where sz: "initialSize um (first_read env) = (cols, rows)"
    by (cases "initialSize um (first_read env)")
  obtain ok s1 where adm: "checkConnectionLimit s = (ok, s1)"
    by (cases "checkConnectionLimit s")
  show ?thesis
  proof (cases "cmdHandler s1")
    case (Some ch)
    obtain s2 r where cr: "createCmdSession s1 ncp (now env) cols rows = (s2, r)"
      by (cases "createCmdSession s1 ncp (now env) cols rows")
    from assms adm sz Some cr obtain cs where r: "r = Inr cs"
      and i: "info = \<lparr>si_id = cs_id cs, si_cols = cs_cols cs, si_rows = cs_rows cs\<rparr>"
      by (auto simp: handleWebSocket_def split: bool.splits if_splits sum.splits prod.splits)
    from createCmdSession_size [OF cr [unfolded r]] i sz show ?thesis by simp
  next
    case None
    obtain s2 r where cr: "createSession s1 np h (now env) cols rows = (s2, r)"
      by (cases "createSession s1 np h (now env) cols rows")
    from assms adm sz None cr obtain w where r: "r = Inr w"
      and i: "info = \<lparr>si_id = ws_id w, si_cols = ws_cols w, si_rows = ws_rows w\<rparr>"
      by (auto simp: handleWebSocket_def split: bool.splits if_splits sum.splits prod.splits)
    from createSession_size [OF cr [unfolded r]] i sz show ?thesis by simp
  qed
qed

lemma initialSize_resize:
  "um payload = Some \<lparr>Cols = c, Rows = r\<rparr> \<Longrightarrow> initialSize um (Some (MsgResize # payload)) = (c, r)"
  by (simp add: initialSize_def)

lemma initialSize_None: "initialSize um None = (80, 24)"
  by (simp add: initialSize_def)

lemma initialSize_unparsed:
  "parsed_resize um data = None \<Longrightarrow> initialSize um (Some data) = (80, 24)"
  by (cases data) (auto simp: initialSize_def parsed_resize_def split: if_splits)

text \<open>
  C5. The first read is bounded by a deadline of 5 seconds; the model has its outcome,
  \<open>None\<close> when the deadline passes or the read fails. Whenever the handler comes to serve
  a session: if the first message was a resize frame decoding to 100 columns and 40 rows,
  the session was created 100 by 40; if nothing arrived, or what arrived did not parse as
  a resize, the session was created 80 by 24.
\<close>

theorem initial_size_negotiation:
  "handleWebSocket um np ncp h s env = (s', Served info sess) \<Longrightarrow>
   (first_read env = Some (MsgResize # payload) \<and> um payload = Some \<lparr>Cols = 100, Rows = 40\<rparr>
      \<longrightarrow> si_cols info = 100 \<and> si_rows info = 40) \<and>
   (first_read env = None \<longrightarrow> si_cols info = 80 \<and> si_rows info = 24) \<and>
   (first_read env = Some data \<and> parsed_resize um data = None
      \<longrightarrow> si_cols info = 80 \<and> si_rows info = 24)"
  using handleWebSocket_Served_info [of um np ncp h s env s' info sess]
    initialSize_resize [of um payload 100 40] initialSize_None [of um]
    initialSize_unparsed [of um data]
  by auto

theorem initial_size_negotiation_witness:
  "(\<exists>s' info sess.
      handleWebSocket (\<lambda>b. if b = [1] then Some \<lparr>Cols = 100, Rows = 40\<rparr> else None)
        (\<lambda>_ _. Some \<lparr>backend = UnixPty, pty_calls = []\<rparr>) (\<lambda>_ _ _. None) (\<lambda>_. Some [])
        (newHTTPServer DefaultConfig)
        \<lparr>accept_ok = True, first_read = Some [MsgResize, 1], now = ''1'', inbound = []\<rparr>
        = (s', Served info sess) \<and>
      si_cols info = 100 \<and> si_rows info = 40) \<and>
   (\<exists>s' info sess.
      handleWebSocket (\<lambda>b. if b = [1] then Some \<lparr>Cols = 100, Rows = 40\<rparr> else None)
        (\<lambda>_ _. Some \<lparr>backend = UnixPty, pty_calls = []\<rparr>) (\<lambda>_ _ _. None) (\<lambda>_. Some [])
        (newHTTPServer DefaultConfig)
        \<lparr>accept_ok = True, first_read = None, now = ''1'', inbound = []\<rparr>
        = (s', Served info sess) \<and>
      si_cols info = 80 \<and> si_rows info = 24) \<and>
   (\<exists>s' info sess.
      handleWebSocket (\<lambda>b. if b = [1] then Some \<lparr>Cols = 100, Rows = 40\<rparr> else None)
        (\<lambda>_ _. Some \<lparr>backend = UnixPty, pty_calls = []\<rparr>) (\<lambda>_ _ _. None) (\<lambda>_. Some [])
        (newHTTPServer DefaultConfig)
        \<lparr>accept_ok = True, first_read = Some [MsgResize, 2], now = ''1'', inbound = []\<rparr>
        = (s', Served info sess) \<and>
      si_cols info = 80 \<and> si_rows info = 24)"
proof -
  let ?um = "\<lambda>b::byte list. if b = [1] then Some \<lparr>Cols = 100, Rows = 40\<rparr> else None"
  let ?np = "\<lambda>(_::int) (_::int). Some \<lparr>backend = UnixPty, pty_calls = []\<rparr>"
  let ?ncp = "\<lambda>(_::CommandHandler) (_::int) (_::int). (None :: platformPty option)"
  let ?h = "\<lambda>_::webSession. Some ([]::program)"
  let ?e1 = "\<lparr>accept_ok = True, first_read = Some [MsgResize, 1], now = ''1'', inbound = []\<rparr>"
  let ?e2 = "\<lparr>accept_ok = True, first_read = None, now = ''1'', inbound = []\<rparr>"
  let ?e3 = "\<lparr>accept_ok = True, first_read = Some [MsgResize, 2], now = ''1'', inbound = []\<rparr>"
  have served: "\<And>e. accept_ok e \<Longrightarrow> inbound e = [] \<Longrightarrow>
      \<exists>s' info sess. handleWebSocket ?um ?np ?ncp ?h (newHTTPServer DefaultConfig) e
        = (s', Served info sess)"
    by (simp add: handleWebSocket_def checkConnectionLimit_def newHTTPServer_def
        DefaultConfig_def createSession_def session_close_def closeSession_def Let_def
        split: prod.splits)
  obtain s1 i1 x1 where 1: "handleWebSocket ?um ?np ?ncp ?h (newHTTPServer DefaultConfig) ?e1
        = (s1, Served i1 x1)"
    using served [of ?e1] by auto
  obtain s2 i2 x2 where 2: "handleWebSocket ?um ?np ?ncp ?h (newHTTPServer DefaultConfig) ?e2
        = (s2, Served i2 x2)"
    using served [of ?e2] by auto
  obtain s3 i3 x3 where 3: "handleWebSocket ?um ?np ?ncp ?h (newHTTPServer DefaultConfig) ?e3
        = (s3, Served i3 x3)"
    using served [of ?e3] by auto
  have p: "parsed_resize ?um [MsgResize, 2] = None"
    by (simp add: parsed_resize_def)
  from initial_size_negotiation [OF 1, of "[1]" "[MsgResize, 1]"]
  have "si_cols i1 = 100 \<and> si_rows i1 = 40" by simp
  moreover from initial_size_negotiation [OF 2, of "[1]" "[]"]
  have "si_cols i2 = 80 \<and> si_rows i2 = 24" by simp
  moreover from initial_size_negotiation [OF 3, of "[1]" "[MsgResize, 2]"] p
  have "si_cols i3 = 80 \<and> si_rows i3 = 24" by simp
  ultimately show ?thesis
    using 1 2 3 by blast
qed

text \<open>
  C10. Session creation replaces each non-positive initial dimension by its default,
  columns by 80 and rows by 24, each on its own, in both session variants; a dimension
  above zero is kept. This is so also when the dimensions come from a first resize frame
  that decoded successfully: the handler passes the decoded values on as they are and the
  session it serves was created with the defaults in their place. \<^verbatim>\<open>Resize\<close> on a live
  session stores the integers it is given, whatever their sign.
\<close>

theorem creation_clamps_resize_does_not:
  "(createSession srv npty hdl t c r = (srv', Inr w) \<longrightarrow>
      webSession_Pty w =
        \<lparr>Width = (if c \<le> 0 then 80 else c), Height = (if r \<le> 0 then 24 else r)\<rparr>) \<and>
   (createCmdSession csrv ncpty t' c r = (csrv', Inr cs) \<longrightarrow>
      cmdSession_Pty cs =
        \<lparr>Width = (if c \<le> 0 then 80 else c), Height = (if r \<le> 0 then 24 else r)\<rparr>) \<and>
   (handleWebSocket um np ncp h s env = (s', Served info sess) \<and>
    first_read env = Some (MsgResize # payload) \<and> um payload = Some \<lparr>Cols = c, Rows = r\<rparr>
      \<longrightarrow> si_cols info = (if c \<le> 0 then 80 else c) \<and>
          si_rows info = (if r \<le> 0 then 24 else r)) \<and>
   webSession_Pty (webSession_Resize c r w0) = \<lparr>Width = c, Height = r\<rparr> \<and>
   cmdSession_Pty (cmdSession_Resize c r cs0) = \<lparr>Width = c, Height = r\<rparr>"
proof (intro conjI impI)
  assume "createSession srv npty hdl t c r = (srv', Inr w)"
  from createSession_size [OF this]
  show "webSession_Pty w =
        \<lparr>Width = (if c \<le> 0 then 80 else c), Height = (if r \<le> 0 then 24 else r)\<rparr>"
    by (simp add: webSession_Pty_def)
next
  assume "createCmdSession csrv ncpty t' c r = (csrv', Inr cs)"
  from createCmdSession_size [OF this]
  show "cmdSession_Pty cs =
        \<lparr>Width = (if c \<le> 0 then 80 else c), Height = (if r \<le> 0 then 24 else r)\<rparr>"
    by (simp add: cmdSession_Pty_def)
next
  assume a: "handleWebSocket um np ncp h s env = (s', Served info sess) \<and>
    first_read env = Some (MsgResize # payload) \<and> um payload = Some \<lparr>Cols = c, Rows = r\<rparr>"
  then have served: "handleWebSocket um np ncp h s env = (s', Served info sess)"
    and sz: "initialSize um (first_read env) = (c, r)"
    using initialSize_resize [of um payload c r] by simp_all
  from handleWebSocket_Served_info [OF served] sz
  show "si_cols info = (if c \<le> 0 then 80 else c)"
    and "si_rows info = (if r \<le> 0 then 24 else r)"
    by simp_all
next
  show "webSession_Pty (webSession_Resize c r w0) = \<lparr>Width = c, Height = r\<rparr>"
    by (rule webSession_Resize_Pty)
  show "cmdSession_Pty (cmdSession_Resize c r cs0) = \<lparr>Width = c, Height = r\<rparr>"
    by (rule cmdSession_Resize_Pty)
qed

theorem creation_clamps_resize_does_not_witness:
  "\<exists>srv' w csrv' cs s' info sess.
     createSession (newHTTPServer DefaultConfig)
       (\<lambda>_ _. Some \<lparr>backend = UnixPty, pty_calls = []\<rparr>) (\<lambda>_. Some []) ''1'' 0 (- 5)
       = (srv', Inr w) \<and>
     webSession_Pty w = \<lparr>Width = 80, Height = 24\<rparr> \<and>
     createCmdSession
       (newCmdHTTPServer DefaultConfig \<lparr>ch_name = ''sh'', ch_args = [], ch_dir = ''/''\<rparr>)
       (\<lambda>_ _ _. Some \<lparr>backend = UnixPty, pty_calls = []\<rparr>) ''2'' 0 (- 5)
       = (csrv', Inr cs) \<and>
     cmdSession_Pty cs = \<lparr>Width = 80, Height = 24\<rparr> \<and>
     handleWebSocket (\<lambda>b. if b = [1] then Some \<lparr>Cols = 0, Rows = - 5\<rparr> else None)
       (\<lambda>_ _. Some \<lparr>backend = UnixPty, pty_calls = []\<rparr>) (\<lambda>_ _ _. None) (\<lambda>_. Some [])
       (newHTTPServer DefaultConfig)
       \<lparr>accept_ok = True, first_read = Some [MsgResize, 1], now = ''1'', inbound = []\<rparr>
       = (s', Served info sess) \<and>
     si_cols info = 80 \<and> si_rows info = 24 \<and>
     webSession_Pty (webSession_Resize 0 (- 5) w) = \<lparr>Width = 0, Height = - 5\<rparr>"
proof -
  let ?S = "newHTTPServer DefaultConfig"
  let ?N = "\<lambda>(_::int) (_::int). Some \<lparr>backend = UnixPty, pty_calls = []\<rparr>"
  let ?H = "\<lambda>_::webSession. Some ([]::program)"
  let ?C = "newCmdHTTPServer DefaultConfig \<lparr>ch_name = ''sh'', ch_args = [], ch_dir = ''/''\<rparr>"
  let ?M = "\<lambda>(_::CommandHandler) (_::int) (_::int).
              Some \<lparr>backend = UnixPty, pty_calls = []\<rparr>"
  let ?um = "\<lambda>b::byte list. if b = [1] then Some \<lparr>Cols = 0, Rows = - 5\<rparr> else None"
  let ?ncp = "\<lambda>(_::CommandHandler) (_::int) (_::int). (None :: platformPty option)"
  let ?env = "\<lparr>accept_ok = True, first_read = Some [MsgResize, 1], now = ''1'', inbound = []\<rparr>"
  obtain srv' w where a: "createSession ?S ?N ?H ''1'' 0 (- 5) = (srv', Inr w)"
    by (simp add: createSession_def)
  obtain csrv' cs where b: "createCmdSession ?C ?M ''2'' 0 (- 5) = (csrv', Inr cs)"
    by (simp add: createCmdSession_def newCmdHTTPServer_def)
  have "\<exists>s' info sess. handleWebSocket ?um ?N ?ncp ?H ?S ?env = (s', Served info sess)"
    by (simp add: handleWebSocket_def checkConnectionLimit_def newHTTPServer_def
        DefaultConfig_def createSession_def session_close_def closeSession_def Let_def
        split: prod.splits)
  then obtain s' info sess where
    d: "handleWebSocket ?um ?N ?ncp ?H ?S ?env = (s', Served info sess)"
    by blast
  from creation_clamps_resize_does_not
         [of ?S ?N ?H "''1''" 0 "- 5" srv' w ?C ?M "''2''" csrv' cs
             ?um ?N ?ncp ?H ?S ?env s' info sess "[1]" w cs] a b d
  have "webSession_Pty w = \<lparr>Width = 80, Height = 24\<rparr>"
    and "cmdSession_Pty cs = \<lparr>Width = 80, Height = 24\<rparr>"
    and "si_cols info = 80 \<and> si_rows info = 24"
    and "webSession_Pty (webSession_Resize 0 (- 5) w) = \<lparr>Width = 0, Height = - 5\<rparr>"
    by simp_all
  with a b d show ?thesis by blast
qed

section \<open>Framing on the multiplexed transport\<close>

lemma Uint32_PutUint32: "Uint32 (PutUint32 v) = v"
proof -
  let ?w = "or (or (or (ucast (ucast v :: byte))
                       (push_bit 8 (ucast (ucast (drop_bit 8 v) :: byte))))
                   (push_bit 16 (ucast (ucast (drop_bit 16 v) :: byte))))
               (push_bit 24 (ucast (ucast (drop_bit 24 v) :: byte))) :: 32 word"
  have "?w = v"
  proof (rule bit_word_eqI)
    fix n assume "n < LENGTH(32)"
    then have n: "n < 32" by simp
    consider "n < 8" | "8 \<le> n" "n < 16" | "16 \<le> n" "n < 24" | "24 \<le> n"
      by linarith
    then show "bit ?w n = bit v n"
      using n by cases (auto simp: bit_simps)
  qed
  then show ?thesis
    by (simp add: Uint32_def PutUint32_def)
qed

lemma ReadFull_prefix:
  "length buf = n \<Longrightarrow> ReadFull n (buf @ rest) = Some (buf, rest)"
  by (simp add: ReadFull_def)

lemma length_PutUint32: "length (PutUint32 v) = 4"
  by (simp add: PutUint32_def)

lemma pump_oversized:
  assumes "length lenBuf = 4" and "Uint32 lenBuf > 1024 * 1024"
  shows "handleWebTransportInput um srv (lenBuf @ rest) s =
           Inr (srv\<lparr>logger := logger srv @ [(Warn, ''message too large'')]\<rparr>, s,
                MessageTooLarge)"
  using assms
  by (subst handleWebTransportInput.simps) (simp add: ReadFull_prefix logf_def)

lemma pump_frame:
  assumes "length m \<le> 1048576"
  shows "handleWebTransportInput um srv (writeFramed m @ rest) s =
           (case processInput um srv m s of
              Inl e \<Rightarrow> Inl e
            | Inr (srv', s') \<Rightarrow> handleWebTransportInput um srv' rest s')"
proof -
  let ?n = "of_nat (length m) :: 32 word"
  from assms have u: "unat ?n = length m"
    by (simp add: unat_of_nat)
  have "unat ?n \<le> unat (1024 * 1024 :: 32 word)"
    using assms u by simp
  then have le: "\<not> ?n > 1024 * 1024"
    by (simp add: word_less_nat_alt)
  have r1: "ReadFull 4 (writeFramed m @ rest) = Some (PutUint32 ?n, m @ rest)"
    by (simp add: writeFramed_def ReadFull_prefix length_PutUint32)
  have r2: "ReadFull (unat ?n) (m @ rest) = Some (m, rest)"
    by (simp add: u ReadFull_prefix)
  show ?thesis
    using le
    by (subst handleWebTransportInput.simps) (auto simp add: r1 r2 Uint32_PutUint32)
qed

lemma pump_frames:
  "\<forall>m\<in>set msgs. length m \<le> 1048576 \<Longrightarrow>
   handleWebTransportInput um srv (concat (map writeFramed msgs) @ rest) s =
     (case handleWebSocketInput um srv msgs s of
        Inl e \<Rightarrow> Inl e
      | Inr (srv', s') \<Rightarrow> handleWebTransportInput um srv' rest s')"
proof (induction msgs arbitrary: srv s)
  case Nil
  then show ?case by simp
next
  case (Cons m ms)
  then have m: "length m \<le> 1048576" and ms: "\<forall>m\<in>set ms. length m \<le> 1048576"
    by simp_all
  show ?case
    using pump_frame [OF m, of um srv "concat (map writeFramed ms) @ rest" s] Cons.IH [OF ms]
    by (simp split: sum.splits)
qed

text \<open>
  C6. On the multiplexed transport, after any frames within the cap have been dispatched
  as usual, a frame header that declares more than 1 MiB ends the input pump: it returns
  normally, having logged one warning, without reading or dispatching anything that
  follows. The session is as the earlier frames left it; the registry, the admission
  counter and the configuration of the server are as they were. Every frame of at most
  1 MiB, also one of exactly 1 MiB, is dispatched.
\<close>

theorem oversized_frame_ends_pump_only:
  assumes "\<forall>m\<in>set msgs. length m \<le> 1048576"
    and "length lenBuf = 4" and "Uint32 lenBuf > 1024 * 1024"
    and "session_platform s \<noteq> None"
  shows "\<exists>srv1 s1.
     handleWebSocketInput um srv msgs s = Inr (srv1, s1) \<and>
     handleWebTransportInput um srv (concat (map writeFramed msgs) @ lenBuf @ rest) s =
       Inr (srv1\<lparr>logger := logger srv1 @ [(Warn, ''message too large'')]\<rparr>, s1,
            MessageTooLarge) \<and>
     sessions srv1 = sessions srv \<and> connCount srv1 = connCount srv \<and>
     config srv1 = config srv"
proof -
  from handleWebSocketInput_Pty [OF assms(4), of um srv msgs] obtain srv1 s1 where
    a: "handleWebSocketInput um srv msgs s = Inr (srv1, s1)" by blast
  from pump_frames [OF assms(1), of um srv "lenBuf @ rest" s] a
    pump_oversized [OF assms(2,3), of um srv1 rest s1]
  have "handleWebTransportInput um srv (concat (map writeFramed msgs) @ lenBuf @ rest) s =
       Inr (srv1\<lparr>logger := logger srv1 @ [(Warn, ''message too large'')]\<rparr>, s1,
            MessageTooLarge)"
    by simp
  with a handleWebSocketInput_server [OF a] show ?thesis by simp
qed

theorem oversized_frame_ends_pump_only_witness:
  "\<exists>srv1 s1.
     handleWebTransportInput (\<lambda>_. None) (newHTTPServer DefaultConfig)
       (concat (map writeFramed [[MsgInput, 97], [MsgPing]]) @ [0, 16, 0, 1] @ [48, 98])
       (Cmd \<lparr>cs_id = ''1'', cs_platform = Some \<lparr>backend = UnixPty, pty_calls = []\<rparr>,
             cs_cols = 80, cs_rows = 24, cs_cancelled = False, cs_closed = False,
             cs_windowChanges = []\<rparr>)
     = Inr (srv1, s1, MessageTooLarge) \<and>
     logger srv1 = [(Warn, ''message too large'')] \<and>
     sessions srv1 = Map.empty \<and> connCount srv1 = 0 \<and>
     session_platform s1 = Some \<lparr>backend = UnixPty, pty_calls = [PtyWrite [97]]\<rparr>"
proof -
  let ?S = "Cmd \<lparr>cs_id = ''1'', cs_platform = Some \<lparr>backend = UnixPty, pty_calls = []\<rparr>,
             cs_cols = 80, cs_rows = 24, cs_cancelled = False, cs_closed = False,
             cs_windowChanges = []\<rparr>"
  have 1: "\<forall>m\<in>set [[MsgInput, 97], [MsgPing]]. length m \<le> 1048576" by simp
  have 2: "length [0, 16, 0, 1 :: byte] = 4" by simp
  have 3: "Uint32 [0, 16, 0, 1] > 1024 * 1024" by (simp add: Uint32_def)
  have 4: "session_platform ?S \<noteq> None" by (simp add: session_platform_def)
  have 5: "handleWebSocketInput (\<lambda>_. None) (newHTTPServer DefaultConfig)
             [[MsgInput, 97], [MsgPing]] ?S =
           Inr (newHTTPServer DefaultConfig,
             Cmd \<lparr>cs_id = ''1'',
               cs_platform = Some \<lparr>backend = UnixPty, pty_calls = [PtyWrite [97]]\<rparr>,
               cs_cols = 80, cs_rows = 24, cs_cancelled = False, cs_closed = False,
               cs_windowChanges = []\<rparr>)"
    by (simp add: processInput_def newHTTPServer_def DefaultConfig_def MsgInput_def
        MsgResize_def MsgPing_def session_InputWriter_Write_def platformPty_Write_def)
  from oversized_frame_ends_pump_only
         [OF 1 2 3 4, of "\<lambda>_. None" "newHTTPServer DefaultConfig" "[48, 98]"] 5
  show ?thesis
    by (auto simp: newHTTPServer_def session_platform_def)
qed

section \<open>Closing a session twice\<close>

lemma funpow_after_step:
  assumes ret: "\<And>st. step (Returned, st) = (Returned, st)"
    and n: "(step ^^ n) c = (Returned, final)"
  shows "\<exists>m. (step ^^ m) (step c) = (Returned, final)"
proof (cases n)
  case 0
  with n have "c = (Returned, final)" by simp
  then have "(step ^^ 0) (step c) = (Returned, final)" by (simp add: ret)
  then show ?thesis by blast
next
  case (Suc k)
  with n have "(step ^^ k) (step c) = (Returned, final)"
    by (simp add: funpow_swap1)
  then show ?thesis by blast
qed

lemma funpow_Returned:
  assumes ret: "\<And>st. step (Returned, st) = (Returned, st)"
  shows "(step ^^ n) (Returned, st) = (Returned, st)"
  by (induction n) (simp_all add: ret)

lemma close_inv_step1:
  fixes step :: "close_pc \<times> 'st \<Rightarrow> close_pc \<times> 'st"
  assumes lock_closed: "\<And>st. closed st \<Longrightarrow> step (AtLock, st) = (Returned, st)"
    and ret: "\<And>st. step (Returned, st) = (Returned, st)"
    and keep: "\<And>p st p' st'. step (p, st) = (p', st') \<Longrightarrow> closed st \<or> p = AtLock \<Longrightarrow>
                 closed st' \<and> p' \<noteq> AtLock"
    and inv: "close_inv step closed final (p1, p2, st)"
    and st: "step (p1, st) = (p1', st1)"
  shows "close_inv step closed final (p1', p2, st1)"
proof -
  note fs = funpow_after_step [of step, OF ret]
  from inv consider
      (fresh) "p1 = AtLock" "p2 = AtLock" "\<not> closed st"
        "\<exists>n. (step ^^ n) (AtLock, st) = (Returned, final)"
    | (first) "closed st" "p1 \<noteq> AtLock" "p2 = AtLock \<or> p2 = Returned"
        "\<exists>n. (step ^^ n) (p1, st) = (Returned, final)"
    | (second) "closed st" "p2 \<noteq> AtLock" "p1 = AtLock \<or> p1 = Returned"
        "\<exists>n. (step ^^ n) (p2, st) = (Returned, final)"
    | (settled) "closed st" "p1 = AtLock \<or> p1 = Returned" "p2 = AtLock \<or> p2 = Returned"
        "st = final"
    unfolding close_inv_def by auto
  then show ?thesis
  proof cases
    case fresh
    from fresh(4) fs [of _ "(AtLock, st)"] st fresh(1)
    have "\<exists>m. (step ^^ m) (p1', st1) = (Returned, final)" by auto
    with fresh keep [OF st] show ?thesis unfolding close_inv_def by simp
  next
    case first
    from first(4) fs [of _ "(p1, st)"] st
    have "\<exists>m. (step ^^ m) (p1', st1) = (Returned, final)" by auto
    with first keep [OF st] show ?thesis unfolding close_inv_def by simp
  next
    case second
    from second(3) have "step (p1, st) = (Returned, st)"
      using lock_closed [OF second(1)] ret by auto
    with second st show ?thesis unfolding close_inv_def by simp
  next
    case settled
    from settled(2) have "step (p1, st) = (Returned, st)"
      using lock_closed [OF settled(1)] ret by auto
    with settled st show ?thesis unfolding close_inv_def by simp
  qed
qed

lemma close_inv_sym:
  "close_inv step closed final (p1, p2, st) = close_inv step closed final (p2, p1, st)"
  unfolding close_inv_def by auto

lemma close_inv_interleave:
  fixes step :: "close_pc \<times> 'st \<Rightarrow> close_pc \<times> 'st"
  assumes lock_closed: "\<And>st. closed st \<Longrightarrow> step (AtLock, st) = (Returned, st)"
    and ret: "\<And>st. step (Returned, st) = (Returned, st)"
    and keep: "\<And>p st p' st'. step (p, st) = (p', st') \<Longrightarrow> closed st \<or> p = AtLock \<Longrightarrow>
                 closed st' \<and> p' \<noteq> AtLock"
  shows "close_inv step closed final c \<Longrightarrow> close_inv step closed final (interleave step sched c)"
proof (induction sched arbitrary: c)
  case Nil
  then show ?case by simp
next
  case (Cons b sched)
  obtain p1 p2 st where c: "c = (p1, p2, st)" by (cases c)
  obtain p1' st1 where s1: "step (p1, st) = (p1', st1)" by (cases "step (p1, st)")
  obtain p2' st2 where s2: "step (p2, st) = (p2', st2)" by (cases "step (p2, st)")
  from Cons.prems c have i: "close_inv step closed final (p1, p2, st)" by simp
  from close_inv_step1 [of closed step final p1 p2 st p1' st1, OF lock_closed ret keep i s1]
  have 1: "close_inv step closed final (p1', p2, st1)" .
  from i have "close_inv step closed final (p2, p1, st)" by (simp add: close_inv_sym)
  from close_inv_step1 [of closed step final p2 p1 st p2' st2, OF lock_closed ret keep this s2]
  have 2: "close_inv step closed final (p1, p2', st2)" by (simp add: close_inv_sym)
  show ?case
    using Cons.IH [OF 1] Cons.IH [OF 2] c s1 s2 by simp
qed

lemma close_inv_final:
  assumes ret: "\<And>st. step (Returned, st) = (Returned, st)"
    and "close_inv step closed final (Returned, Returned, st')"
  shows "st' = final"
  using assms(2) funpow_Returned [of step, OF ret]
  unfolding close_inv_def by auto


lemma closeSession_step_run:
  "(closeSession_step ^^ 5) (AtLock, srv, s) = (Returned, closeSession srv s)"
  by (cases "ws_program s"; cases "ws_platform s")
     (simp_all add: eval_nat_numeral closeSession_def Let_def)

lemma closeCmdSession_step_run:
  "(closeCmdSession_step ^^ 4) (AtLock, srv, s) = (Returned, closeCmdSession srv s)"
  by (cases "cs_platform s") (simp_all add: eval_nat_numeral closeCmdSession_def Let_def)

lemma closeSession_step_keep:
  "closeSession_step (p, st) = (p', st') \<Longrightarrow> ws_closed (snd st) \<or> p = AtLock \<Longrightarrow>
   ws_closed (snd st') \<and> p' \<noteq> AtLock"
  by (cases st; cases p) (auto split: if_splits option.splits)

lemma closeCmdSession_step_keep:
  "closeCmdSession_step (p, st) = (p', st') \<Longrightarrow> cs_closed (snd st) \<or> p = AtLock \<Longrightarrow>
   cs_closed (snd st') \<and> p' \<noteq> AtLock"
  by (cases st; cases p) (auto split: if_splits option.splits)

lemma closeSession_race:
  assumes "interleave closeSession_step sched (AtLock, AtLock, srv, s) = (Returned, Returned, st')"
  shows "st' = closeSession srv s"
proof -
  let ?closed = "\<lambda>st :: httpServer \<times> webSession. ws_closed (snd st)"
  have lock: "\<And>st. ?closed st \<Longrightarrow> closeSession_step (AtLock, st) = (Returned, st)"
    by (case_tac st) simp
  have ret: "\<And>st. closeSession_step (Returned, st) = (Returned, st)"
    by (case_tac st) simp
  have keep: "\<And>p st p' st'. closeSession_step (p, st) = (p', st') \<Longrightarrow>
      ?closed st \<or> p = AtLock \<Longrightarrow> ?closed st' \<and> p' \<noteq> AtLock"
    by (rule closeSession_step_keep)
  have init: "close_inv closeSession_step ?closed (closeSession srv s) (AtLock, AtLock, srv, s)"
  proof (cases "ws_closed s")
    case True
    then show ?thesis by (simp add: close_inv_def closeSession_def)
  next
    case False
    with closeSession_step_run [of srv s] show ?thesis
      unfolding close_inv_def by auto
  qed
  from close_inv_interleave [of ?closed closeSession_step "closeSession srv s"
         "(AtLock, AtLock, srv, s)" sched, OF lock ret keep init] assms
  have "close_inv closeSession_step ?closed (closeSession srv s) (Returned, Returned, st')"
    by simp
  from close_inv_final [of closeSession_step ?closed, OF ret this] show ?thesis .
qed

lemma closeCmdSession_race:
  assumes "interleave closeCmdSession_step sched (AtLock, AtLock, srv, s)
             = (Returned, Returned, st')"
  shows "st' = closeCmdSession srv s"
proof -
  let ?closed = "\<lambda>st :: httpServer \<times> cmdSession. cs_closed (snd st)"
  have lock: "\<And>st. ?closed st \<Longrightarrow> closeCmdSession_step (AtLock, st) = (Returned, st)"
    by (case_tac st) simp
  have ret: "\<And>st. closeCmdSession_step (Returned, st) = (Returned, st)"
    by (case_tac st) simp
  have keep: "\<And>p st p' st'. closeCmdSession_step (p, st) = (p', st') \<Longrightarrow>
      ?closed st \<or> p = AtLock \<Longrightarrow> ?closed st' \<and> p' \<noteq> AtLock"
    by (rule closeCmdSession_step_keep)
  have init:
    "close_inv closeCmdSession_step ?closed (closeCmdSession srv s) (AtLock, AtLock, srv, s)"
  proof (cases "cs_closed s")
    case True
    then show ?thesis by (simp add: close_inv_def closeCmdSession_def)
  next
    case False
    with closeCmdSession_step_run [of srv s] show ?thesis
      unfolding close_inv_def by auto
  qed
  from close_inv_interleave [of ?closed closeCmdSession_step "closeCmdSession srv s"
         "(AtLock, AtLock, srv, s)" sched, OF lock ret keep init] assms
  have "close_inv closeCmdSession_step ?closed (closeCmdSession srv s)
          (Returned, Returned, st')"
    by simp
  from close_inv_final [of closeCmdSession_step ?closed, OF ret this] show ?thesis .
qed

lemma closeSession_closed:
  "ws_closed (snd (closeSession srv w))"
  by (simp add: closeSession_def Let_def split: option.splits)

lemma closeCmdSession_closed:
  "cs_closed (snd (closeCmdSession srv c))"
  by (simp add: closeCmdSession_def Let_def split: option.splits)

text \<open>
  C8. Closing a closed session returns server and session as they are, and every close
  leaves the session closed, so a second close after a first changes nothing; this holds
  for both session variants. Run statement by statement, one caller alone reaches the
  result of the function. When two callers close the same session at once, under every
  schedule in which both return, the state they leave is that of one single close: the
  program is told to quit once, the context is cancelled, the bridge is closed once and
  the registry entry is deleted, by the caller that found the flag unset, while the
  other returned at the flag.
\<close>

theorem close_is_idempotent:
  "(ws_closed w \<longrightarrow> closeSession srv w = (srv, w)) \<and>
   ws_closed (snd (closeSession srv w)) \<and>
   closeSession (fst (closeSession srv w)) (snd (closeSession srv w)) = closeSession srv w \<and>
   (cs_closed c \<longrightarrow> closeCmdSession srv c = (srv, c)) \<and>
   cs_closed (snd (closeCmdSession srv c)) \<and>
   closeCmdSession (fst (closeCmdSession srv c)) (snd (closeCmdSession srv c))
     = closeCmdSession srv c \<and>
   (closeSession_step ^^ 5) (AtLock, srv, w) = (Returned, closeSession srv w) \<and>
   (closeCmdSession_step ^^ 4) (AtLock, srv, c) = (Returned, closeCmdSession srv c) \<and>
   (interleave closeSession_step sched (AtLock, AtLock, srv, w) = (Returned, Returned, st)
      \<longrightarrow> st = closeSession srv w) \<and>
   (interleave closeCmdSession_step csched (AtLock, AtLock, srv, c)
      = (Returned, Returned, cst) \<longrightarrow> cst = closeCmdSession srv c)"
proof (intro conjI impI)
  show "ws_closed w \<Longrightarrow> closeSession srv w = (srv, w)"
    by (simp add: closeSession_def)
  show "ws_closed (snd (closeSession srv w))"
    by (rule closeSession_closed)
  then show "closeSession (fst (closeSession srv w)) (snd (closeSession srv w))
      = closeSession srv w"
    by (subst closeSession_def) simp
  show "cs_closed c \<Longrightarrow> closeCmdSession srv c = (srv, c)"
    by (simp add: closeCmdSession_def)
  show "cs_closed (snd (closeCmdSession srv c))"
    by (rule closeCmdSession_closed)
  then show "closeCmdSession (fst (closeCmdSession srv c)) (snd (closeCmdSession srv c))
      = closeCmdSession srv c"
    by (subst closeCmdSession_def) simp
  show "(closeSession_step ^^ 5) (AtLock, srv, w) = (Returned, closeSession srv w)"
    by (rule closeSession_step_run)
  show "(closeCmdSession_step ^^ 4) (AtLock, srv, c) = (Returned, closeCmdSession srv c)"
    by (rule closeCmdSession_step_run)
  show "interleave closeSession_step sched (AtLock, AtLock, srv, w) = (Returned, Returned, st)
      \<Longrightarrow> st = closeSession srv w"
    by (rule closeSession_race)
  show "interleave closeCmdSession_step csched (AtLock, AtLock, srv, c)
      = (Returned, Returned, cst) \<Longrightarrow> cst = closeCmdSession srv c"
    by (rule closeCmdSession_race)
qed

theorem close_is_idempotent_witness:
  "closeSession (newHTTPServer DefaultConfig)
     \<lparr>ws_id = ''1'', ws_program = Some [],
      ws_platform = Some \<lparr>backend = UnixPty, pty_calls = [PtyClose]\<rparr>,
      ws_cols = 80, ws_rows = 24, ws_cancelled = True, ws_closed = True,
      ws_windowChanges = []\<rparr>
   = (newHTTPServer DefaultConfig,
      \<lparr>ws_id = ''1'', ws_program = Some [],
       ws_platform = Some \<lparr>backend = UnixPty, pty_calls = [PtyClose]\<rparr>,
       ws_cols = 80, ws_rows = 24, ws_cancelled = True, ws_closed = True,
       ws_windowChanges = []\<rparr>) \<and>
   closeCmdSession (newHTTPServer DefaultConfig)
     \<lparr>cs_id = ''2'', cs_platform = Some \<lparr>backend = UnixPty, pty_calls = []\<rparr>,
      cs_cols = 80, cs_rows = 24, cs_cancelled = True, cs_closed = True,
      cs_windowChanges = []\<rparr>
   = (newHTTPServer DefaultConfig,
      \<lparr>cs_id = ''2'', cs_platform = Some \<lparr>backend = UnixPty, pty_calls = []\<rparr>,
       cs_cols = 80, cs_rows = 24, cs_cancelled = True, cs_closed = True,
       cs_windowChanges = []\<rparr>) \<and>
   (\<exists>st.
      interleave closeSession_step [True, False, True, True, False, True, True]
        (AtLock, AtLock,
         (newHTTPServer DefaultConfig)\<lparr>sessions := [''1'' \<mapsto> WebKind, ''2'' \<mapsto> CmdKind]\<rparr>,
         \<lparr>ws_id = ''1'', ws_program = Some [],
          ws_platform = Some \<lparr>backend = UnixPty, pty_calls = []\<rparr>,
          ws_cols = 80, ws_rows = 24, ws_cancelled = False, ws_closed = False,
          ws_windowChanges = []\<rparr>)
        = (Returned, Returned, st) \<and>
      ws_program (snd st) = Some [ProgramQuit] \<and>
      ws_platform (snd st) = Some \<lparr>backend = UnixPty, pty_calls = [PtyClose]\<rparr> \<and>
      ws_cancelled (snd st) \<and> ws_closed (snd st) \<and>
      sessions (fst st) ''1'' = None \<and> sessions (fst st) ''2'' = Some CmdKind) \<and>
   (\<exists>cst.
      interleave closeCmdSession_step [False, True, False, False, True, False]
        (AtLock, AtLock,
         (newHTTPServer DefaultConfig)\<lparr>sessions := [''1'' \<mapsto> WebKind, ''2'' \<mapsto> CmdKind]\<rparr>,
         \<lparr>cs_id = ''2'', cs_platform = Some \<lparr>backend = UnixPty, pty_calls = []\<rparr>,
          cs_cols = 80, cs_rows = 24, cs_cancelled = False, cs_closed = False,
          cs_windowChanges = []\<rparr>)
        = (Returned, Returned, cst) \<and>
      cs_platform (snd cst) = Some \<lparr>backend = UnixPty, pty_calls = [PtyClose, PtyKillWait]\<rparr> \<and>
      cs_cancelled (snd cst) \<and> cs_closed (snd cst) \<and>
      sessions (fst cst) ''2'' = None \<and> sessions (fst cst) ''1'' = Some WebKind)"
proof -
  let ?wc = "\<lparr>ws_id = ''1'', ws_program = Some [],
      ws_platform = Some \<lparr>backend = UnixPty, pty_calls = [PtyClose]\<rparr>,
      ws_cols = 80, ws_rows = 24, ws_cancelled = True, ws_closed = True,
      ws_windowChanges = []\<rparr>"
  let ?cc = "\<lparr>cs_id = ''2'', cs_platform = Some \<lparr>backend = UnixPty, pty_calls = []\<rparr>,
      cs_cols = 80, cs_rows = 24, cs_cancelled = True, cs_closed = True,
      cs_windowChanges = []\<rparr>"
  let ?w = "\<lparr>ws_id = ''1'', ws_program = Some [],
       ws_platform = Some \<lparr>backend = UnixPty, pty_calls = []\<rparr>,
       ws_cols = 80, ws_rows = 24, ws_cancelled = False, ws_closed = False,
       ws_windowChanges = []\<rparr>"
  let ?c = "\<lparr>cs_id = ''2'', cs_platform = Some \<lparr>backend = UnixPty, pty_calls = []\<rparr>,
       cs_cols = 80, cs_rows = 24, cs_cancelled = False, cs_closed = False,
       cs_windowChanges = []\<rparr>"
  let ?s = "(newHTTPServer DefaultConfig)\<lparr>sessions := [''1'' \<mapsto> WebKind, ''2'' \<mapsto> CmdKind]\<rparr>"
  let ?sched1 = "[True, False, True, True, False, True, True]"
  let ?sched2 = "[False, True, False, False, True, False]"
  obtain st where r1:
    "interleave closeSession_step ?sched1 (AtLock, AtLock, ?s, ?w) = (Returned, Returned, st)"
    by simp
  obtain cst where r2:
    "interleave closeCmdSession_step ?sched2 (AtLock, AtLock, ?s, ?c)
       = (Returned, Returned, cst)"
    by simp
  from close_is_idempotent [of ?wc "newHTTPServer DefaultConfig" ?cc ?sched1 st ?sched2 cst]
  have a: "closeSession (newHTTPServer DefaultConfig) ?wc = (newHTTPServer DefaultConfig, ?wc)"
    and b: "closeCmdSession (newHTTPServer DefaultConfig) ?cc
              = (newHTTPServer DefaultConfig, ?cc)"
    by simp_all
  from close_is_idempotent [of ?w ?s ?c ?sched1 st ?sched2 cst] r1 r2
  have "st = closeSession ?s ?w" and "cst = closeCmdSession ?s ?c"
    by blast+
  then have
    "ws_program (snd st) = Some [ProgramQuit] \<and>
     ws_platform (snd st) = Some \<lparr>backend = UnixPty, pty_calls = [PtyClose]\<rparr> \<and>
     ws_cancelled (snd st) \<and> ws_closed (snd st) \<and>
     sessions (fst st) ''1'' = None \<and> sessions (fst st) ''2'' = Some CmdKind"
    and
    "cs_platform (snd cst) = Some \<lparr>backend = UnixPty, pty_calls = [PtyClose, PtyKillWait]\<rparr> \<and>
     cs_cancelled (snd cst) \<and> cs_closed (snd cst) \<and>
     sessions (fst cst) ''2'' = None \<and> sessions (fst cst) ''1'' = Some WebKind"
    by (simp_all add: closeSession_def closeCmdSession_def platformPty_Close_def
        cmdPlatformPty_Close_def newHTTPServer_def)
  with a b r1 r2 show ?thesis by blast
qed

end
